theory Spec2Isabelle
  imports Main
begin

section \<open>The Go runtime the package relies on\<close>

text \<open>
  A Go call either returns or panics. Every slice operation of the package is modelled
  with the run-time check Go performs, so that an access out of range is the value
  \<open>Panics\<close> of the model and not an unspecified HOL value.

  Go's \<open>int\<close> is modelled as \<open>int\<close>: the only arithmetic of the package is
  \<open>number - 1\<close>, \<open>i + 1\<close> and \<open>Length() + 1\<close>, each computed on a value between
  0 and the length of a slice, where a 64-bit integer does not wrap.
\<close>

datatype 'a outcome = Returns 'a | Panics

text \<open>\<open>make([]T, len, cap)\<close>: panics unless \<open>0 \<le> len \<le> cap\<close>; the elements are zero values.\<close>

definition make_slice :: "int \<Rightarrow> int \<Rightarrow> 'a \<Rightarrow> 'a list outcome" where
  "make_slice len cap zero =
     (if 0 \<le> len \<and> len \<le> cap then Returns (replicate (nat len) zero) else Panics)"

text \<open>\<open>xs[i]\<close> as an expression.\<close>

definition index :: "'a list \<Rightarrow> int \<Rightarrow> 'a outcome" where
  "index xs i = (if 0 \<le> i \<and> i < int (length xs) then Returns (xs ! nat i) else Panics)"

text \<open>\<open>xs[i] = v\<close> as a statement.\<close>

definition assign :: "'a list \<Rightarrow> int \<Rightarrow> 'a \<Rightarrow> 'a list outcome" where
  "assign xs i v = (if 0 \<le> i \<and> i < int (length xs) then Returns (xs[nat i := v]) else Panics)"

text \<open>
  \<open>xs[lo:hi]\<close>. Go checks \<open>0 \<le> lo \<le> hi \<le> cap(xs)\<close>; the model checks against the
  length, which is at most the capacity, so the model panics whenever Go does.
\<close>

definition slice :: "'a list \<Rightarrow> int \<Rightarrow> int \<Rightarrow> 'a list outcome" where
  "slice xs lo hi =
     (if 0 \<le> lo \<and> lo \<le> hi \<and> hi \<le> int (length xs)
      then Returns (take (nat (hi - lo)) (drop (nat lo) xs)) else Panics)"

subsection \<open>Strings\<close>

text \<open>
  A Go string is a sequence of bytes. The record separator is the one-byte string
  \<open>"\n"\<close>, so \<open>strings.Split\<close> and \<open>strings.Join\<close> are modelled for a separator of one
  byte. \<open>strings.Split\<close> never returns an empty slice: on the empty string it returns one
  empty string.
\<close>

definition newline :: char where
  "newline = CHR 0x0A"

fun Split :: "string \<Rightarrow> char \<Rightarrow> string list" where
  "Split [] sep = [[]]"
| "Split (c # cs) sep =
     (if c = sep then [] # Split cs sep
      else (case Split cs sep of [] \<Rightarrow> [[c]] | r # rs \<Rightarrow> (c # r) # rs))"

fun Join :: "string list \<Rightarrow> char \<Rightarrow> string" where
  "Join [] sep = []"
| "Join [r] sep = r"
| "Join (r # r' # rs) sep = r @ sep # Join (r' # rs) sep"

text \<open>The verb \<open>%d\<close> of \<open>fmt.Errorf\<close>: the decimal digits, with a minus sign when negative.\<close>

fun digits :: "nat \<Rightarrow> string" where
  "digits n =
     (if n < 10 then [''0123456789'' ! n]
      else digits (n div 10) @ [''0123456789'' ! (n mod 10)])"

declare digits.simps [simp del]

definition Itoa :: "int \<Rightarrow> string" where
  "Itoa i = (if i < 0 then CHR ''-'' # digits (nat (- i)) else digits (nat i))"

subsection \<open>Files\<close>

text \<open>
  The file system is a map from paths to regular files. A file has its bytes and two
  flags telling whether it can be opened for reading and for writing (the tests clear the
  second with \<open>os.Chmod(path, 0400)\<close>). For a path with no file, \<open>create_error\<close> gives
  the error that creating it meets, if any (a directory that is missing or cannot be
  written). \<open>wlimit\<close> is the room left for a write: with \<open>Some (n, e)\<close> a write stores at
  most \<open>n\<close> bytes and fails with \<open>e\<close> when the data is longer (a full disk, a limit on the
  size of files). \<open>wcalls\<close> counts the calls of \<open>os.WriteFile\<close>; no operation reads it.

  The errors of package \<open>os\<close> are path errors: the operation, the path and the cause.

  \<open>os.ReadFile\<close> fails on a missing path and on a file that cannot be opened for reading.

  \<open>os.WriteFile(path, data, 0)\<close> opens the file for writing, creating it with permission 0
  when it is missing and truncating it otherwise, then writes the data. When the open is
  refused the file keeps its bytes. When the write fails after the open, the file is
  left with the bytes written so far.
\<close>

datatype errno = ENOENT | EACCES | ENOSPC | EFBIG

datatype os_error = PathError string string errno

record osfile =
  bytes :: string
  readable :: bool
  writable :: bool

record filesystem =
  files :: "string \<rightharpoonup> osfile"
  create_error :: "string \<rightharpoonup> errno"
  wlimit :: "(nat \<times> errno) option"
  wcalls :: nat

definition os_ReadFile :: "filesystem \<Rightarrow> string \<Rightarrow> os_error + string" where
  "os_ReadFile fs path =
     (case files fs path of
        None \<Rightarrow> Inl (PathError ''open'' path ENOENT)
      | Some f \<Rightarrow>
          if readable f then Inr (bytes f) else Inl (PathError ''open'' path EACCES))"

text \<open>The write that follows a successful open: \<open>f\<close> is the file that was opened.\<close>

definition write_opened ::
  "filesystem \<Rightarrow> string \<Rightarrow> osfile \<Rightarrow> string \<Rightarrow> os_error option \<times> filesystem" where
  "write_opened fs path f data =
     (case wlimit fs of
        None \<Rightarrow> (None, fs\<lparr>files := (files fs)(path \<mapsto> f\<lparr>bytes := data\<rparr>)\<rparr>)
      | Some (n, e) \<Rightarrow>
          if n < length data
          then (Some (PathError ''write'' path e),
                fs\<lparr>files := (files fs)(path \<mapsto> f\<lparr>bytes := take n data\<rparr>)\<rparr>)
          else (None, fs\<lparr>files := (files fs)(path \<mapsto> f\<lparr>bytes := data\<rparr>)\<rparr>))"

definition os_WriteFile ::
  "filesystem \<Rightarrow> string \<Rightarrow> string \<Rightarrow> os_error option \<times> filesystem" where
  "os_WriteFile fs path data =
     (let fs1 = fs\<lparr>wcalls := Suc (wcalls fs)\<rparr> in
      case files fs path of
        None \<Rightarrow>
          (case create_error fs path of
             Some e \<Rightarrow> (Some (PathError ''open'' path e), fs1)
           | None \<Rightarrow>
               write_opened fs1 path \<lparr>bytes = [], readable = False, writable = False\<rparr> data)
      | Some f \<Rightarrow>
          if writable f then write_opened fs1 path f data
          else (Some (PathError ''open'' path EACCES), fs1))"

section \<open>Package linedb\<close>

subsection \<open>Data\<close>

record Database =
  filePath :: string
  records :: "string list"

record Rec =
  Number :: int
  Text :: string

text \<open>
  The package builds its errors with \<open>fmt.Errorf\<close>. The four kinds are kept apart by a
  datatype, named as in the specification; \<open>Error\<close> is the message Go's \<open>err.Error()\<close>
  returns, where \<open>%w\<close> prints the message of the path error.
\<close>

datatype error =
    LoadError string os_error
  | EmptyStoreError
  | OutOfBoundsError int int int
  | PersistError string os_error

fun strerror :: "errno \<Rightarrow> string" where
  "strerror ENOENT = ''no such file or directory''"
| "strerror EACCES = ''permission denied''"
| "strerror ENOSPC = ''no space left on device''"
| "strerror EFBIG = ''file too large''"

fun os_Error :: "os_error \<Rightarrow> string" where
  "os_Error (PathError op path e) = op @ '' '' @ path @ '': '' @ strerror e"

fun Error :: "error \<Rightarrow> string" where
  "Error (LoadError path e) =
     ''cannot open linedb backing file '' @ path @ '': '' @ os_Error e"
| "Error EmptyStoreError = ''no records in database''"
| "Error (OutOfBoundsError number lower numberOfRecords) =
     ''record number ('' @ Itoa number @ '') out of bounds ['' @ Itoa lower @ '', ''
       @ Itoa numberOfRecords @ '']''"
| "Error (PersistError path e) =
     ''cannot save linedb backing file '' @ path @ '': '' @ os_Error e"

subsection \<open>The codec: loadFromFile and saveToFile\<close>

definition loadFromFile :: "filesystem \<Rightarrow> string \<Rightarrow> string list \<times> error option" where
  "loadFromFile fs path =
     (case os_ReadFile fs path of
        Inl e \<Rightarrow> ([], Some (LoadError path e))
      | Inr buf \<Rightarrow>
          if length buf = 0 then ([], None)
          else (Split buf newline, None))"

definition saveToFile ::
  "filesystem \<Rightarrow> string \<Rightarrow> string list \<Rightarrow> error option \<times> filesystem" where
  "saveToFile fs path recs =
     (case os_WriteFile fs path (Join recs newline) of
        (Some e, fs') \<Rightarrow> (Some (PersistError path e), fs')
      | (None, fs') \<Rightarrow> (None, fs'))"

text \<open>
  The two halves of the codec without the file system: what \<open>loadFromFile\<close> makes of the
  bytes it read, and the bytes \<open>saveToFile\<close> writes.
\<close>

definition decode :: "string \<Rightarrow> string list" where
  "decode buf = (if length buf = 0 then [] else Split buf newline)"

definition encode :: "string list \<Rightarrow> string" where
  "encode recs = Join recs newline"

subsection \<open>The store\<close>

definition Open :: "filesystem \<Rightarrow> string \<Rightarrow> Database option \<times> error option" where
  "Open fs path =
     (case loadFromFile fs path of
        (recs, Some err) \<Rightarrow> (None, Some err)
      | (recs, None) \<Rightarrow> (Some \<lparr>filePath = path, records = recs\<rparr>, None))"

definition Length :: "Database \<Rightarrow> int" where
  "Length db = int (length (records db))"

definition checkEmpty :: "Database \<Rightarrow> error option" where
  "checkEmpty db = (if Length db = 0 then Some EmptyStoreError else None)"

definition checkBounds :: "Database \<Rightarrow> int \<Rightarrow> int \<Rightarrow> error option" where
  "checkBounds db lower number =
     (let numberOfRecords = Length db in
      if number < lower \<or> number > numberOfRecords
      then Some (OutOfBoundsError number lower numberOfRecords)
      else None)"

definition Record :: "Database \<Rightarrow> int \<Rightarrow> (string \<times> error option) outcome" where
  "Record db number =
     (case checkEmpty db of
        Some err \<Rightarrow> Returns ([], Some err)
      | None \<Rightarrow>
          (case checkBounds db 1 number of
             Some err \<Rightarrow> Returns ([], Some err)
           | None \<Rightarrow>
               (case index (records db) (number - 1) of
                  Panics \<Rightarrow> Panics
                | Returns r \<Rightarrow> Returns (r, None))))"

text \<open>
  \<open>All\<close> and \<open>Select\<close> loop over the indices of \<open>db.records\<close>. The filter of \<open>Select\<close> is
  a function of the record alone: it does not touch the store it is applied to.
\<close>

fun All_loop :: "string list \<Rightarrow> nat list \<Rightarrow> Rec list \<Rightarrow> Rec list outcome" where
  "All_loop recs [] out = Returns out"
| "All_loop recs (i # is) out =
     (case index recs (int i) of
        Panics \<Rightarrow> Panics
      | Returns t \<Rightarrow>
          (case assign out (int i) \<lparr>Number = int i + 1, Text = t\<rparr> of
             Panics \<Rightarrow> Panics
           | Returns out' \<Rightarrow> All_loop recs is out'))"

definition All :: "Database \<Rightarrow> Rec list outcome" where
  "All db =
     (case make_slice (Length db) (Length db) \<lparr>Number = 0, Text = []\<rparr> of
        Panics \<Rightarrow> Panics
      | Returns out \<Rightarrow> All_loop (records db) [0..<length (records db)] out)"

fun Select_loop ::
  "string list \<Rightarrow> (Rec \<Rightarrow> bool) \<Rightarrow> nat list \<Rightarrow> Rec list \<Rightarrow> Rec list outcome" where
  "Select_loop recs filter' [] res = Returns res"
| "Select_loop recs filter' (i # is) res =
     (case index recs (int i) of
        Panics \<Rightarrow> Panics
      | Returns t \<Rightarrow>
          if filter' \<lparr>Number = int i + 1, Text = t\<rparr>
          then Select_loop recs filter' is (res @ [\<lparr>Number = int i + 1, Text = t\<rparr>])
          else Select_loop recs filter' is res)"

definition Select :: "Database \<Rightarrow> (Rec \<Rightarrow> bool) \<Rightarrow> Rec list outcome" where
  "Select db filter' = Select_loop (records db) filter' [0..<length (records db)] []"

text \<open>
  The methods that change the store take the file system and the store and return both,
  next to what the Go method returns. A method that returns early returns the store and
  the file system it was given.
\<close>

definition Insert ::
  "filesystem \<Rightarrow> Database \<Rightarrow> int \<Rightarrow> string \<Rightarrow> (error option \<times> Database \<times> filesystem) outcome"
  where
  "Insert fs db number record =
     (case checkBounds db 0 number of
        Some err \<Rightarrow> Returns (Some err, db, fs)
      | None \<Rightarrow>
          if Length db = 0 \<and> record = [] then Returns (None, db, fs)
          else if number = 0 then
            (let newRecords = records db @ [record] in
             case saveToFile fs (filePath db) newRecords of
               (Some err, fs') \<Rightarrow> Returns (Some err, db, fs')
             | (None, fs') \<Rightarrow> Returns (None, db\<lparr>records := newRecords\<rparr>, fs'))
          else
            (case make_slice 0 (Length db + 1) [] of
               Panics \<Rightarrow> Panics
             | Returns new0 \<Rightarrow>
                 (case slice (records db) 0 (number - 1) of
                    Panics \<Rightarrow> Panics
                  | Returns front \<Rightarrow>
                      (case slice (records db) (number - 1) (Length db) of
                         Panics \<Rightarrow> Panics
                       | Returns back \<Rightarrow>
                           (let newRecords = ((new0 @ front) @ [record]) @ back in
                            case saveToFile fs (filePath db) newRecords of
                              (Some err, fs') \<Rightarrow> Returns (Some err, db, fs')
                            | (None, fs') \<Rightarrow>
                                Returns (None, db\<lparr>records := newRecords\<rparr>, fs'))))))"

text \<open>
  \<open>Update\<close> writes the new text into the slice before saving, and writes the old text
  back when saving fails; the model does both assignments.
\<close>

definition Update ::
  "filesystem \<Rightarrow> Database \<Rightarrow> int \<Rightarrow> string
     \<Rightarrow> ((string \<times> error option) \<times> Database \<times> filesystem) outcome"
  where
  "Update fs db number record =
     (case Record db number of
        Panics \<Rightarrow> Panics
      | Returns (old, Some err) \<Rightarrow> Returns (([], Some err), db, fs)
      | Returns (old, None) \<Rightarrow>
          (case assign (records db) (number - 1) record of
             Panics \<Rightarrow> Panics
           | Returns recs1 \<Rightarrow>
               (let db1 = db\<lparr>records := recs1\<rparr> in
                case saveToFile fs (filePath db1) (records db1) of
                  (Some err, fs') \<Rightarrow>
                    (case assign (records db1) (number - 1) old of
                       Panics \<Rightarrow> Panics
                     | Returns recs2 \<Rightarrow>
                         Returns (([], Some err), db1\<lparr>records := recs2\<rparr>, fs'))
                | (None, fs') \<Rightarrow> Returns ((old, None), db1, fs'))))"

fun Delete_loop :: "string list \<Rightarrow> int \<Rightarrow> nat list \<Rightarrow> string list \<Rightarrow> string list outcome" where
  "Delete_loop recs number [] newRecords = Returns newRecords"
| "Delete_loop recs number (i # is) newRecords =
     (if int i = number - 1 then Delete_loop recs number is newRecords
      else (case index recs (int i) of
              Panics \<Rightarrow> Panics
            | Returns r \<Rightarrow> Delete_loop recs number is (newRecords @ [r])))"

definition Delete ::
  "filesystem \<Rightarrow> Database \<Rightarrow> int \<Rightarrow> ((string \<times> error option) \<times> Database \<times> filesystem) outcome"
  where
  "Delete fs db number =
     (case Record db number of
        Panics \<Rightarrow> Panics
      | Returns (old, Some err) \<Rightarrow> Returns (([], Some err), db, fs)
      | Returns (old, None) \<Rightarrow>
          (case make_slice 0 (Length db - 1) [] of
             Panics \<Rightarrow> Panics
           | Returns new0 \<Rightarrow>
               (case Delete_loop (records db) number [0..<length (records db)] new0 of
                  Panics \<Rightarrow> Panics
                | Returns newRecords \<Rightarrow>
                    (case saveToFile fs (filePath db) newRecords of
                       (Some err, fs') \<Rightarrow> Returns (([], Some err), db, fs')
                     | (None, fs') \<Rightarrow> Returns ((old, None), db\<lparr>records := newRecords\<rparr>, fs')))))"

subsection \<open>Reachable states\<close>

text \<open>
  A state is a file system and a store opened on one of its files. The states considered
  here start at a successful \<open>Open\<close> and follow successful calls of \<open>Insert\<close>, \<open>Update\<close>
  and \<open>Delete\<close>. Between calls the environment may change the file system in any way that
  keeps the bytes of every file (permissions, the room for writes). Nothing else writes
  the files.
\<close>

inductive reachable :: "filesystem \<Rightarrow> Database \<Rightarrow> bool" where
  r_Open: "Open fs path = (Some db, None) \<Longrightarrow> reachable fs db"
| r_Insert: "reachable fs db \<Longrightarrow> Insert fs db number record = Returns (None, db', fs')
     \<Longrightarrow> reachable fs' db'"
| r_Update: "reachable fs db \<Longrightarrow> Update fs db number record = Returns ((old, None), db', fs')
     \<Longrightarrow> reachable fs' db'"
| r_Delete: "reachable fs db \<Longrightarrow> Delete fs db number = Returns ((old, None), db', fs')
     \<Longrightarrow> reachable fs' db'"
| r_Environment: "reachable fs db
     \<Longrightarrow> \<forall>p. map_option bytes (files fs' p) = map_option bytes (files fs p)
     \<Longrightarrow> reachable fs' db"

subsection \<open>The sequences the operations build\<close>

text \<open>
  \<open>Insert\<close> and \<open>Delete\<close> build their new sequence from slices and a loop. The lemmas
  below prove that the sequences built are these, written with \<open>take\<close> and \<open>drop\<close>.
\<close>

definition inserted :: "string list \<Rightarrow> int \<Rightarrow> string \<Rightarrow> string list" where
  "inserted recs number record =
     (if number = 0 then recs @ [record]
      else take (nat (number - 1)) recs @ record # drop (nat (number - 1)) recs)"

definition deleted :: "string list \<Rightarrow> int \<Rightarrow> string list" where
  "deleted recs number = take (nat (number - 1)) recs @ drop (nat number) recs"

subsection \<open>The store and its backing file\<close>

text \<open>
  The store and the file are consistent when the backing file exists and holds the bytes
  the records encode to. The file and the store correspond when a file of zero bytes goes
  with zero records and any other file with one record more than it has separators.
\<close>

definition consistent :: "filesystem \<Rightarrow> Database \<Rightarrow> bool" where
  "consistent fs db \<longleftrightarrow>
     (case files fs (filePath db) of None \<Rightarrow> False | Some f \<Rightarrow> bytes f = encode (records db))"

definition corresponds :: "filesystem \<Rightarrow> Database \<Rightarrow> bool" where
  "corresponds fs db \<longleftrightarrow>
     (case files fs (filePath db) of
        None \<Rightarrow> False
      | Some f \<Rightarrow>
          Length db = (if bytes f = [] then 0 else int (count_list (bytes f) newline) + 1))"

section \<open>Properties of the codec\<close>


lemma Split_not_Nil: "Split s sep \<noteq> []"
  by (induction s) (auto split: list.splits)

lemma Split_Cons_other:
  "c \<noteq> sep \<Longrightarrow> Split (c # cs) sep = (c # hd (Split cs sep)) # tl (Split cs sep)"
  using Split_not_Nil [of cs sep] by (cases "Split cs sep") auto

lemma length_Split: "length (Split s sep) = Suc (count_list s sep)"
  by (induction s) (auto split: list.splits simp: Split_not_Nil)

lemma Join_Cons: "rs \<noteq> [] \<Longrightarrow> Join (r # rs) sep = r @ sep # Join rs sep"
  by (cases rs) auto

lemma Join_Split: "Join (Split s sep) sep = s"
proof (induction s)
  case Nil
  show ?case by simp
next
  case (Cons c cs)
  show ?case
  proof (cases "c = sep")
    case True
    with Cons show ?thesis by (simp add: Join_Cons Split_not_Nil)
  next
    case False
    obtain r rs where eq: "Split cs sep = r # rs"
      using Split_not_Nil [of cs sep] by (cases "Split cs sep") auto
    with Cons False show ?thesis by (cases rs) auto
  qed
qed

lemma Split_no_sep: "r \<in> set (Split s sep) \<Longrightarrow> sep \<notin> set r"
proof (induction s arbitrary: r)
  case Nil
  then show ?case by simp
next
  case (Cons c cs)
  then show ?case
    by (cases "Split cs sep") (auto split: if_splits)
qed

lemma Split_append: "Split (a @ sep # b) sep = Split a sep @ Split b sep"
proof (induction a)
  case Nil
  show ?case by simp
next
  case (Cons c cs)
  obtain r rs where eq: "Split cs sep = r # rs"
    using Split_not_Nil [of cs sep] by (cases "Split cs sep") auto
  with Cons show ?case by auto
qed

lemma Split_no_sep_id: "sep \<notin> set r \<Longrightarrow> Split r sep = [r]"
  by (induction r) auto

lemma Split_Join:
  "recs \<noteq> [] \<Longrightarrow> \<forall>r \<in> set recs. sep \<notin> set r \<Longrightarrow> Split (Join recs sep) sep = recs"
proof (induction recs sep rule: Join.induct)
  case (1 sep)
  then show ?case by simp
next
  case (2 r sep)
  then show ?case by (simp add: Split_no_sep_id)
next
  case (3 r r' rs sep)
  then show ?case by (simp add: Split_append Split_no_sep_id)
qed

lemma Join_eq_Nil: "Join recs sep = [] \<longleftrightarrow> recs = [] \<or> recs = [[]]"
  by (induction recs sep rule: Join.induct) auto

section \<open>What the operations compute\<close>


lemma Record_eq:
  "Record db number =
     Returns (if Length db = 0 then ([], Some EmptyStoreError)
              else if number < 1 \<or> Length db < number
                then ([], Some (OutOfBoundsError number 1 (Length db)))
              else (records db ! nat (number - 1), None))"
  by (simp add: Record_def checkEmpty_def checkBounds_def index_def Length_def Let_def)

lemma saveToFile_unwritable:
  "files fs path = Some f \<Longrightarrow> \<not> writable f \<Longrightarrow>
   saveToFile fs path recs =
     (Some (PersistError path (PathError ''open'' path EACCES)), fs\<lparr>wcalls := Suc (wcalls fs)\<rparr>)"
  by (simp add: saveToFile_def os_WriteFile_def Let_def)

lemma saveToFile_short:
  "files fs path = Some f \<Longrightarrow> writable f \<Longrightarrow> wlimit fs = Some (n, e)
   \<Longrightarrow> n < length (Join recs newline) \<Longrightarrow>
   saveToFile fs path recs =
     (Some (PersistError path (PathError ''write'' path e)),
      fs\<lparr>wcalls := Suc (wcalls fs),
         files := (files fs)(path \<mapsto> f\<lparr>bytes := take n (Join recs newline)\<rparr>)\<rparr>)"
  by (simp add: saveToFile_def os_WriteFile_def write_opened_def Let_def)

lemma saveToFile_writable:
  "files fs path = Some f \<Longrightarrow> writable f \<Longrightarrow> wlimit fs = None \<Longrightarrow>
   saveToFile fs path recs =
     (None, fs\<lparr>wcalls := Suc (wcalls fs),
                files := (files fs)(path \<mapsto> f\<lparr>bytes := Join recs newline\<rparr>)\<rparr>)"
  by (simp add: saveToFile_def os_WriteFile_def write_opened_def Let_def)

lemma write_opened_failed:
  assumes "write_opened fs path f data = (Some e, fs')"
  shows "wcalls fs' = wcalls fs"
    and "p \<noteq> path \<Longrightarrow> files fs' p = files fs p"
    and "\<exists>n c. wlimit fs = Some (n, c) \<and> n < length data \<and> e = PathError ''write'' path c
          \<and> files fs' path = Some (f\<lparr>bytes := take n data\<rparr>)"
  using assms by (auto simp: write_opened_def split: option.splits if_splits)

lemma write_opened_done:
  assumes "write_opened fs path f data = (None, fs')"
  shows "files fs' path = Some (f\<lparr>bytes := data\<rparr>)"
    and "p \<noteq> path \<Longrightarrow> files fs' p = files fs p"
  using assms by (auto simp: write_opened_def split: option.splits if_splits)

lemma saveToFile_failed:
  assumes "saveToFile fs path recs = (Some err, fs')"
  shows "wcalls fs' = Suc (wcalls fs)"
    and "p \<noteq> path \<Longrightarrow> files fs' p = files fs p"
    and "\<exists>op c. err = PersistError path (PathError op path c)"
    and "files fs' = files fs
         \<or> (\<exists>n c f'. wlimit fs = Some (n, c) \<and> n < length (Join recs newline)
               \<and> files fs' path = Some f' \<and> bytes f' = take n (Join recs newline))"
proof -
  let ?fs1 = "fs\<lparr>wcalls := Suc (wcalls fs)\<rparr>"
  let ?data = "Join recs newline"
  from assms obtain e where w: "os_WriteFile fs path ?data = (Some e, fs')"
    and err: "err = PersistError path e"
    by (auto simp: saveToFile_def split: prod.splits option.splits)
  consider (refused) "fs' = ?fs1" "\<exists>c. e = PathError ''open'' path c"
    | (opened) f where "write_opened ?fs1 path f ?data = (Some e, fs')"
    using w by (auto simp: os_WriteFile_def Let_def split: option.splits if_splits)
  then have "wcalls fs' = Suc (wcalls fs)
      \<and> (p \<noteq> path \<longrightarrow> files fs' p = files fs p)
      \<and> (\<exists>op c. err = PersistError path (PathError op path c))
      \<and> (files fs' = files fs
         \<or> (\<exists>n c f'. wlimit fs = Some (n, c) \<and> n < length ?data
               \<and> files fs' path = Some f' \<and> bytes f' = take n ?data))"
  proof cases
    case refused
    then show ?thesis using err by auto
  next
    case (opened f)
    from write_opened_failed [OF opened] err show ?thesis by auto
  qed
  then show "wcalls fs' = Suc (wcalls fs)"
    and "p \<noteq> path \<Longrightarrow> files fs' p = files fs p"
    and "\<exists>op c. err = PersistError path (PathError op path c)"
    and "files fs' = files fs
         \<or> (\<exists>n c f'. wlimit fs = Some (n, c) \<and> n < length (Join recs newline)
               \<and> files fs' path = Some f' \<and> bytes f' = take n (Join recs newline))"
    by blast+
qed

lemma saveToFile_done:
  assumes "saveToFile fs path recs = (None, fs')"
  shows "\<exists>f. files fs' path = Some f \<and> bytes f = Join recs newline"
    and "p \<noteq> path \<Longrightarrow> files fs' p = files fs p"
    and "wcalls fs' = Suc (wcalls fs)"
proof -
  let ?fs1 = "fs\<lparr>wcalls := Suc (wcalls fs)\<rparr>"
  let ?data = "Join recs newline"
  from assms have w: "os_WriteFile fs path ?data = (None, fs')"
    by (auto simp: saveToFile_def split: prod.splits option.splits)
  then obtain f where o: "write_opened ?fs1 path f ?data = (None, fs')"
    by (auto simp: os_WriteFile_def Let_def split: option.splits if_splits)
  from write_opened_done [OF o]
  show "\<exists>f. files fs' path = Some f \<and> bytes f = Join recs newline"
    and "p \<noteq> path \<Longrightarrow> files fs' p = files fs p"
    by auto
  from o show "wcalls fs' = Suc (wcalls fs)"
    by (auto simp: write_opened_def split: option.splits if_splits)
qed

lemma Insert_eq:
  "Insert fs db number record =
     Returns
       (if number < 0 \<or> Length db < number
        then (Some (OutOfBoundsError number 0 (Length db)), db, fs)
        else if Length db = 0 \<and> record = [] then (None, db, fs)
        else (case saveToFile fs (filePath db) (inserted (records db) number record) of
                (Some err, fs') \<Rightarrow> (Some err, db, fs')
              | (None, fs') \<Rightarrow>
                  (None, db\<lparr>records := inserted (records db) number record\<rparr>, fs')))"
  by (auto simp: Insert_def checkBounds_def make_slice_def slice_def Length_def Let_def
      inserted_def split: option.splits prod.splits)

lemma Update_eq:
  "Update fs db number record =
     Returns
       (if Length db = 0 then (([], Some EmptyStoreError), db, fs)
        else if number < 1 \<or> Length db < number
          then (([], Some (OutOfBoundsError number 1 (Length db))), db, fs)
        else (case saveToFile fs (filePath db) ((records db)[nat (number - 1) := record]) of
                (Some err, fs') \<Rightarrow> (([], Some err), db, fs')
              | (None, fs') \<Rightarrow>
                  ((records db ! nat (number - 1), None),
                   db\<lparr>records := (records db)[nat (number - 1) := record]\<rparr>, fs')))"
  by (auto simp: Update_def Record_eq assign_def Length_def Let_def
      split: option.splits prod.splits)

lemma Delete_loop_eq:
  "\<forall>i \<in> set is. i < length recs \<Longrightarrow>
   Delete_loop recs number is acc =
     Returns (acc @ map (\<lambda>i. recs ! i) (filter (\<lambda>i. int i \<noteq> number - 1) is))"
  by (induction "is" arbitrary: acc) (auto simp: index_def)

lemma skip_index:
  "k < length xs \<Longrightarrow>
   map (\<lambda>i. xs ! i) (filter (\<lambda>i. i \<noteq> k) [0..<length xs]) = take k xs @ drop (Suc k) xs"
proof (induction xs arbitrary: k rule: rev_induct)
  case Nil
  then show ?case by simp
next
  case (snoc x xs)
  show ?case
  proof (cases "k = length xs")
    case True
    have "map (\<lambda>i. (xs @ [x]) ! i) (filter (\<lambda>i. i \<noteq> k) [0..<length xs]) = map (\<lambda>i. xs ! i) [0..<length xs]"
      using True by (auto simp: nth_append intro!: map_cong filter_True)
    with True show ?thesis by (simp add: map_nth)
  next
    case False
    with snoc.prems have lt: "k < length xs" by simp
    have "map (\<lambda>i. (xs @ [x]) ! i) (filter (\<lambda>i. i \<noteq> k) [0..<length xs])
        = map (\<lambda>i. xs ! i) (filter (\<lambda>i. i \<noteq> k) [0..<length xs])"
      by (auto simp: nth_append intro!: map_cong)
    with snoc.IH [OF lt] False lt show ?thesis by (simp add: nth_append)
  qed
qed

lemma Delete_eq:
  "Delete fs db number =
     Returns
       (if Length db = 0 then (([], Some EmptyStoreError), db, fs)
        else if number < 1 \<or> Length db < number
          then (([], Some (OutOfBoundsError number 1 (Length db))), db, fs)
        else (case saveToFile fs (filePath db) (deleted (records db) number) of
                (Some err, fs') \<Rightarrow> (([], Some err), db, fs')
              | (None, fs') \<Rightarrow>
                  ((records db ! nat (number - 1), None),
                   db\<lparr>records := deleted (records db) number\<rparr>, fs')))"
proof -
  have loop: "Delete_loop (records db) number [0..<length (records db)] [] =
      Returns (deleted (records db) number)"
    if "1 \<le> number" "number \<le> Length db"
  proof -
    have eq: "(\<lambda>i. int i \<noteq> number - 1) = (\<lambda>i. i \<noteq> nat (number - 1))"
      using that by (auto simp: fun_eq_iff)
    have "nat (number - 1) < length (records db)" "Suc (nat (number - 1)) = nat number"
      using that by (auto simp: Length_def)
    then show ?thesis
      using skip_index [of "nat (number - 1)" "records db"]
      by (simp add: Delete_loop_eq eq deleted_def)
  qed
  show ?thesis
    by (auto simp: Delete_def Record_eq make_slice_def loop split: option.splits prod.splits)
qed


subsection \<open>The loops of All and Select\<close>

lemma All_loop_eq:
  "length out = length recs \<Longrightarrow> k \<le> length recs \<Longrightarrow>
   All_loop recs [k..<length recs] out =
     Returns (take k out @ map (\<lambda>i. \<lparr>Number = int i + 1, Text = recs ! i\<rparr>) [k..<length recs])"
proof (induction "length recs - k" arbitrary: k out)
  case 0
  then show ?case by simp
next
  case (Suc d)
  then have lt: "k < length recs" by simp
  let ?r = "\<lparr>Number = int k + 1, Text = recs ! k\<rparr>"
  have step: "All_loop recs [k..<length recs] out = All_loop recs [Suc k..<length recs] (out[k := ?r])"
    using lt Suc.prems by (simp add: upt_conv_Cons index_def assign_def)
  have "All_loop recs [Suc k..<length recs] (out[k := ?r]) =
      Returns (take (Suc k) (out[k := ?r])
        @ map (\<lambda>i. \<lparr>Number = int i + 1, Text = recs ! i\<rparr>) [Suc k..<length recs])"
    using Suc.hyps(2) Suc.prems lt by (intro Suc.hyps(1)) auto
  moreover have "take (Suc k) (out[k := ?r]) = take k out @ [?r]"
    using lt Suc.prems by (simp add: take_Suc_conv_app_nth)
  moreover have "map (\<lambda>i. \<lparr>Number = int i + 1, Text = recs ! i\<rparr>) [k..<length recs] =
      ?r # map (\<lambda>i. \<lparr>Number = int i + 1, Text = recs ! i\<rparr>) [Suc k..<length recs]"
    using lt by (simp add: upt_conv_Cons)
  ultimately show ?case
    unfolding step by simp
qed

lemma All_eq:
  "All db = Returns (map (\<lambda>i. \<lparr>Number = int i + 1, Text = records db ! i\<rparr>) [0..<length (records db)])"
  using All_loop_eq [of "replicate (length (records db)) \<lparr>Number = 0, Text = []\<rparr>" "records db" 0]
  by (simp add: All_def make_slice_def Length_def)

lemma Select_loop_eq:
  "\<forall>i \<in> set is. i < length recs \<Longrightarrow>
   Select_loop recs filter' is res =
     Returns (res @ filter filter' (map (\<lambda>i. \<lparr>Number = int i + 1, Text = recs ! i\<rparr>) is))"
  by (induction "is" arbitrary: res) (auto simp: index_def)

lemma Select_eq:
  "Select db filter' =
     Returns (filter filter'
       (map (\<lambda>i. \<lparr>Number = int i + 1, Text = records db ! i\<rparr>) [0..<length (records db)]))"
  by (simp add: Select_def Select_loop_eq)

subsection \<open>Open and the consistency of reachable states\<close>

lemma Open_eq:
  "Open fs path =
     (case files fs path of
        None \<Rightarrow> (None, Some (LoadError path (PathError ''open'' path ENOENT)))
      | Some f \<Rightarrow>
          if readable f then (Some \<lparr>filePath = path, records = decode (bytes f)\<rparr>, None)
          else (None, Some (LoadError path (PathError ''open'' path EACCES))))"
  by (simp add: Open_def loadFromFile_def os_ReadFile_def decode_def split: option.splits)

lemma encode_decode: "encode (decode buf) = buf"
  by (simp add: encode_def decode_def Join_Split)

lemma consistent_iff:
  "consistent fs db \<longleftrightarrow> (\<exists>f. files fs (filePath db) = Some f \<and> bytes f = encode (records db))"
  by (simp add: consistent_def split: option.splits)

lemma consistent_saved:
  assumes "saveToFile fs (filePath db) recs = (None, fs')"
  shows "consistent fs' (db\<lparr>records := recs\<rparr>)"
  using saveToFile_done(1) [OF assms] by (simp add: consistent_iff encode_def)

lemma Insert_succeeded_cases:
  assumes "Insert fs db number record = Returns (None, db', fs')"
  shows "(db' = db \<and> fs' = fs)
    \<or> (db' = db\<lparr>records := inserted (records db) number record\<rparr>
        \<and> saveToFile fs (filePath db) (inserted (records db) number record) = (None, fs'))"
proof -
  obtain e fs1 where s: "saveToFile fs (filePath db) (inserted (records db) number record) = (e, fs1)"
    by (cases "saveToFile fs (filePath db) (inserted (records db) number record)") auto
  with assms show ?thesis
    by (cases e) (auto simp: Insert_eq split: if_splits)
qed

lemma Update_succeeded:
  assumes "Update fs db number record = Returns ((old, None), db', fs')"
  shows "1 \<le> number" and "number \<le> Length db" and "old = records db ! nat (number - 1)"
    and "db' = db\<lparr>records := (records db)[nat (number - 1) := record]\<rparr>"
    and "saveToFile fs (filePath db) ((records db)[nat (number - 1) := record]) = (None, fs')"
proof -
  obtain e fs1 where s: "saveToFile fs (filePath db) ((records db)[nat (number - 1) := record]) = (e, fs1)"
    by (cases "saveToFile fs (filePath db) ((records db)[nat (number - 1) := record])") auto
  with assms have "1 \<le> number \<and> number \<le> Length db \<and> old = records db ! nat (number - 1)
      \<and> db' = db\<lparr>records := (records db)[nat (number - 1) := record]\<rparr> \<and> e = None \<and> fs1 = fs'"
    by (cases e) (auto simp: Update_eq split: if_splits)
  with s show "1 \<le> number" and "number \<le> Length db" and "old = records db ! nat (number - 1)"
    and "db' = db\<lparr>records := (records db)[nat (number - 1) := record]\<rparr>"
    and "saveToFile fs (filePath db) ((records db)[nat (number - 1) := record]) = (None, fs')"
    by simp_all
qed

lemma Delete_succeeded:
  assumes "Delete fs db number = Returns ((old, None), db', fs')"
  shows "1 \<le> number" and "number \<le> Length db" and "old = records db ! nat (number - 1)"
    and "db' = db\<lparr>records := deleted (records db) number\<rparr>"
    and "saveToFile fs (filePath db) (deleted (records db) number) = (None, fs')"
proof -
  obtain e fs1 where s: "saveToFile fs (filePath db) (deleted (records db) number) = (e, fs1)"
    by (cases "saveToFile fs (filePath db) (deleted (records db) number)") auto
  with assms have "1 \<le> number \<and> number \<le> Length db \<and> old = records db ! nat (number - 1)
      \<and> db' = db\<lparr>records := deleted (records db) number\<rparr> \<and> e = None \<and> fs1 = fs'"
    by (cases e) (auto simp: Delete_eq split: if_splits)
  with s show "1 \<le> number" and "number \<le> Length db" and "old = records db ! nat (number - 1)"
    and "db' = db\<lparr>records := deleted (records db) number\<rparr>"
    and "saveToFile fs (filePath db) (deleted (records db) number) = (None, fs')"
    by simp_all
qed

lemma reachable_consistent: "reachable fs db \<Longrightarrow> consistent fs db"
proof (induction rule: reachable.induct)
  case (r_Open fs path db)
  then show ?case
    by (auto simp: Open_eq consistent_iff encode_decode split: option.splits if_splits)
next
  case (r_Insert fs db number t db' fs')
  from Insert_succeeded_cases [OF r_Insert.hyps(2)] r_Insert.IH consistent_saved
  show ?case by auto
next
  case (r_Update fs db number t old db' fs')
  from Update_succeeded(4,5) [OF r_Update.hyps(2)] consistent_saved
  show ?case by auto
next
  case (r_Delete fs db number old db' fs')
  from Delete_succeeded(4,5) [OF r_Delete.hyps(2)] consistent_saved
  show ?case by auto
next
  case (r_Environment fs db fs')
  from r_Environment.IH obtain f where f: "files fs (filePath db) = Some f"
    "bytes f = encode (records db)" by (auto simp: consistent_iff)
  from r_Environment.hyps(2) have "map_option bytes (files fs' (filePath db)) = Some (bytes f)"
    using f by simp
  then show ?case using f by (auto simp: consistent_iff)
qed

subsection \<open>A call that returns an error leaves the store\<close>

lemma Insert_error_cases:
  assumes "Insert fs db number record = Returns (Some err, db', fs')"
  shows "db' = db"
    and "fs' = fs \<or> saveToFile fs (filePath db) (inserted (records db) number record) = (Some err, fs')"
proof -
  obtain e fs1 where s: "saveToFile fs (filePath db) (inserted (records db) number record) = (e, fs1)"
    by (cases "saveToFile fs (filePath db) (inserted (records db) number record)") auto
  with assms have "db' = db \<and> (fs' = fs \<or> (e = Some err \<and> fs1 = fs'))"
    by (cases e) (auto simp: Insert_eq split: if_splits)
  with s show "db' = db"
    and "fs' = fs \<or> saveToFile fs (filePath db) (inserted (records db) number record) = (Some err, fs')"
    by auto
qed

lemma Update_error_cases:
  assumes "Update fs db number record = Returns ((s, Some err), db', fs')"
  shows "db' = db"
    and "fs' = fs
      \<or> saveToFile fs (filePath db) ((records db)[nat (number - 1) := record]) = (Some err, fs')"
proof -
  obtain e fs1 where s: "saveToFile fs (filePath db) ((records db)[nat (number - 1) := record]) = (e, fs1)"
    by (cases "saveToFile fs (filePath db) ((records db)[nat (number - 1) := record])") auto
  with assms have "db' = db \<and> (fs' = fs \<or> (e = Some err \<and> fs1 = fs'))"
    by (cases e) (auto simp: Update_eq split: if_splits)
  with s show "db' = db"
    and "fs' = fs
      \<or> saveToFile fs (filePath db) ((records db)[nat (number - 1) := record]) = (Some err, fs')"
    by auto
qed

lemma Delete_error_cases:
  assumes "Delete fs db number = Returns ((s, Some err), db', fs')"
  shows "db' = db"
    and "fs' = fs \<or> saveToFile fs (filePath db) (deleted (records db) number) = (Some err, fs')"
proof -
  obtain e fs1 where s: "saveToFile fs (filePath db) (deleted (records db) number) = (e, fs1)"
    by (cases "saveToFile fs (filePath db) (deleted (records db) number)") auto
  with assms have "db' = db \<and> (fs' = fs \<or> (e = Some err \<and> fs1 = fs'))"
    by (cases e) (auto simp: Delete_eq split: if_splits)
  with s show "db' = db"
    and "fs' = fs \<or> saveToFile fs (filePath db) (deleted (records db) number) = (Some err, fs')"
    by auto
qed

subsection \<open>Calls whose write fails\<close>

lemma Insert_unwritable:
  assumes "files fs (filePath db) = Some f" "\<not> writable f"
    and "0 \<le> number" "number \<le> Length db" "\<not> (Length db = 0 \<and> record = [])"
  shows "Insert fs db number record =
    Returns (Some (PersistError (filePath db) (PathError ''open'' (filePath db) EACCES)), db,
      fs\<lparr>wcalls := Suc (wcalls fs)\<rparr>)"
  using assms(3-5) by (auto simp: Insert_eq saveToFile_unwritable [OF assms(1,2)])

lemma Update_unwritable:
  assumes "files fs (filePath db) = Some f" "\<not> writable f"
    and "1 \<le> number" "number \<le> Length db"
  shows "Update fs db number record =
    Returns (([], Some (PersistError (filePath db) (PathError ''open'' (filePath db) EACCES))), db,
      fs\<lparr>wcalls := Suc (wcalls fs)\<rparr>)"
  using assms(3-4) by (auto simp: Update_eq saveToFile_unwritable [OF assms(1,2)])

lemma Delete_unwritable:
  assumes "files fs (filePath db) = Some f" "\<not> writable f"
    and "1 \<le> number" "number \<le> Length db"
  shows "Delete fs db number =
    Returns (([], Some (PersistError (filePath db) (PathError ''open'' (filePath db) EACCES))), db,
      fs\<lparr>wcalls := Suc (wcalls fs)\<rparr>)"
  using assms(3-4) by (auto simp: Delete_eq saveToFile_unwritable [OF assms(1,2)])

lemma Insert_short:
  assumes "files fs (filePath db) = Some f" "writable f" "wlimit fs = Some (n, e)"
    and "n < length (encode (inserted (records db) number record))"
    and "0 \<le> number" "number \<le> Length db" "\<not> (Length db = 0 \<and> record = [])"
  shows "Insert fs db number record =
    Returns (Some (PersistError (filePath db) (PathError ''write'' (filePath db) e)), db,
      fs\<lparr>wcalls := Suc (wcalls fs),
         files := (files fs)(filePath db \<mapsto>
           f\<lparr>bytes := take n (encode (inserted (records db) number record))\<rparr>)\<rparr>)"
  using assms(5-7) saveToFile_short [OF assms(1-3), of "inserted (records db) number record"] assms(4)
  by (auto simp: Insert_eq encode_def)

lemma Update_short:
  assumes "files fs (filePath db) = Some f" "writable f" "wlimit fs = Some (n, e)"
    and "n < length (encode ((records db)[nat (number - 1) := record]))"
    and "1 \<le> number" "number \<le> Length db"
  shows "Update fs db number record =
    Returns (([], Some (PersistError (filePath db) (PathError ''write'' (filePath db) e))), db,
      fs\<lparr>wcalls := Suc (wcalls fs),
         files := (files fs)(filePath db \<mapsto>
           f\<lparr>bytes := take n (encode ((records db)[nat (number - 1) := record]))\<rparr>)\<rparr>)"
  using assms(5-6) saveToFile_short [OF assms(1-3), of "(records db)[nat (number - 1) := record]"]
    assms(4)
  by (auto simp: Update_eq encode_def)

lemma Delete_short:
  assumes "files fs (filePath db) = Some f" "writable f" "wlimit fs = Some (n, e)"
    and "n < length (encode (deleted (records db) number))"
    and "1 \<le> number" "number \<le> Length db"
  shows "Delete fs db number =
    Returns (([], Some (PersistError (filePath db) (PathError ''write'' (filePath db) e))), db,
      fs\<lparr>wcalls := Suc (wcalls fs),
         files := (files fs)(filePath db \<mapsto>
           f\<lparr>bytes := take n (encode (deleted (records db) number))\<rparr>)\<rparr>)"
  using assms(5-6) saveToFile_short [OF assms(1-3), of "deleted (records db) number"] assms(4)
  by (auto simp: Delete_eq encode_def)

subsection \<open>What a successful Insert leaves\<close>

lemma inserted_nth:
  assumes "n \<le> length xs"
  shows "length (take n xs @ x # drop n xs) = Suc (length xs)"
    and "i < n \<Longrightarrow> (take n xs @ x # drop n xs) ! i = xs ! i"
    and "(take n xs @ x # drop n xs) ! n = x"
    and "n \<le> i \<Longrightarrow> i < length xs \<Longrightarrow> (take n xs @ x # drop n xs) ! Suc i = xs ! i"
proof -
  have len: "length (take n xs) = n" using assms by simp
  show "length (take n xs @ x # drop n xs) = Suc (length xs)"
    using assms by simp
  show "i < n \<Longrightarrow> (take n xs @ x # drop n xs) ! i = xs ! i"
    using assms by (simp add: nth_append)
  show "(take n xs @ x # drop n xs) ! n = x"
    using nth_append_length [of "take n xs" x "drop n xs"] len by simp
  show "(take n xs @ x # drop n xs) ! Suc i = xs ! i" if "n \<le> i" "i < length xs"
  proof -
    have "(take n xs @ x # drop n xs) ! Suc i = (x # drop n xs) ! (Suc i - n)"
      using that len by (simp add: nth_append)
    also have "Suc i - n = Suc (i - n)" using that by simp
    also have "(x # drop n xs) ! Suc (i - n) = xs ! i"
      using that assms by simp
    finally show ?thesis .
  qed
qed

lemma Insert_succeeded:
  assumes "Insert fs db number record = Returns (None, db', fs')"
    and "\<not> (Length db = 0 \<and> record = [])"
  shows "0 \<le> number" and "number \<le> Length db"
    and "db' = db\<lparr>records := inserted (records db) number record\<rparr>"
    and "saveToFile fs (filePath db) (inserted (records db) number record) = (None, fs')"
proof -
  obtain e fs1 where s: "saveToFile fs (filePath db) (inserted (records db) number record) = (e, fs1)"
    by (cases "saveToFile fs (filePath db) (inserted (records db) number record)") auto
  from assms s have b: "0 \<le> number \<and> number \<le> Length db"
    by (cases e) (auto simp: Insert_eq split: if_splits)
  then show "0 \<le> number" and "number \<le> Length db" by simp_all
  from assms s b have "e = None \<and> fs1 = fs' \<and> db' = db\<lparr>records := inserted (records db) number record\<rparr>"
    by (cases e) (auto simp: Insert_eq split: if_splits)
  with s show "db' = db\<lparr>records := inserted (records db) number record\<rparr>"
    and "saveToFile fs (filePath db) (inserted (records db) number record) = (None, fs')"
    by simp_all
qed

lemma Insert_writable:
  assumes "files fs (filePath db) = Some f" "writable f" "wlimit fs = None"
    and "0 \<le> number" "number \<le> Length db" "\<not> (Length db = 0 \<and> record = [])"
  shows "Insert fs db number record =
    Returns (None, db\<lparr>records := inserted (records db) number record\<rparr>,
      fs\<lparr>wcalls := Suc (wcalls fs),
         files := (files fs)(filePath db \<mapsto>
           f\<lparr>bytes := Join (inserted (records db) number record) newline\<rparr>)\<rparr>)"
  using assms(4-6) by (auto simp: Insert_eq saveToFile_writable [OF assms(1-3)])

lemma Record_inserted_at:
  assumes "0 \<le> number" "number \<le> Length db"
  shows "Record (db\<lparr>records := inserted (records db) number record\<rparr>)
           (if number = 0 then Length db + 1 else number) = Returns (record, None)"
proof (cases "number = 0")
  case True
  then show ?thesis
    by (simp add: Record_eq inserted_def Length_def nat_add_distrib)
next
  case False
  with assms have n: "nat (number - 1) \<le> length (records db)" "1 \<le> number"
    by (auto simp: Length_def)
  show ?thesis
    using False assms n inserted_nth(3) [OF n(1), of "record"]
    by (simp add: Record_eq inserted_def Length_def)
qed

lemma Record_after_Insert:
  assumes "1 \<le> number" "number \<le> Length db"
  shows "Length (db\<lparr>records := inserted (records db) number record\<rparr>) = Length db + 1"
    and "1 \<le> k \<Longrightarrow> k < number \<Longrightarrow>
      Record (db\<lparr>records := inserted (records db) number record\<rparr>) k = Record db k"
    and "number \<le> k \<Longrightarrow> k \<le> Length db \<Longrightarrow>
      Record (db\<lparr>records := inserted (records db) number record\<rparr>) (k + 1) = Record db k"
proof -
  let ?n = "nat (number - 1)"
  have n: "?n \<le> length (records db)" using assms by (simp add: Length_def)
  have ins: "inserted (records db) number record
      = take ?n (records db) @ record # drop ?n (records db)"
    using assms by (simp add: inserted_def)
  show len: "Length (db\<lparr>records := inserted (records db) number record\<rparr>) = Length db + 1"
    using inserted_nth(1) [OF n, of "record"] by (simp add: Length_def ins)
  show "Record (db\<lparr>records := inserted (records db) number record\<rparr>) k = Record db k"
    if "1 \<le> k" "k < number"
  proof -
    have "nat (k - 1) < ?n" using that by simp
    then have "inserted (records db) number record ! nat (k - 1) = records db ! nat (k - 1)"
      using inserted_nth(2) [OF n] by (simp add: ins)
    then show ?thesis
      using that assms len by (simp add: Record_eq)
  qed
  show "Record (db\<lparr>records := inserted (records db) number record\<rparr>) (k + 1) = Record db k"
    if "number \<le> k" "k \<le> Length db"
  proof -
    have "?n \<le> nat (k - 1)" "nat (k - 1) < length (records db)"
      using that assms by (simp_all add: Length_def)
    then have "inserted (records db) number record ! Suc (nat (k - 1)) = records db ! nat (k - 1)"
      using inserted_nth(4) [OF n] by (simp add: ins)
    moreover have "nat k = Suc (nat (k - 1))" using that assms by simp
    ultimately show ?thesis
      using that assms len by (simp add: Record_eq)
  qed
qed

lemma Insert_out_of_bounds:
  "number < 0 \<or> Length db < number \<Longrightarrow>
   Insert fs db number record = Returns (Some (OutOfBoundsError number 0 (Length db)), db, fs)"
  by (simp add: Insert_eq)

lemma Insert_in_bounds_error:
  assumes "0 \<le> number" "number \<le> Length db"
    and "Insert fs db number record = Returns (Some err, db', fs')"
  shows "\<exists>op c. err = PersistError (filePath db) (PathError op (filePath db) c)"
proof -
  from Insert_error_cases(2) [OF assms(3)]
  show ?thesis
  proof
    assume "fs' = fs"
    obtain e fs1 where s: "saveToFile fs (filePath db) (inserted (records db) number record) = (e, fs1)"
      by (cases "saveToFile fs (filePath db) (inserted (records db) number record)") auto
    show ?thesis
    proof (cases e)
      case None
      with assms s show ?thesis by (simp add: Insert_eq split: if_splits)
    next
      case (Some e')
      with assms s saveToFile_failed(3) [of fs "filePath db" _ e' fs1]
      show ?thesis by (auto simp add: Insert_eq split: if_splits)
    qed
  next
    assume "saveToFile fs (filePath db) (inserted (records db) number record) = (Some err, fs')"
    from saveToFile_failed(3) [OF this] show ?thesis .
  qed
qed

subsection \<open>Round trip and correspondence\<close>

lemma decode_encode:
  assumes "recs \<noteq> [[]]" and "\<forall>r \<in> set recs. newline \<notin> set r"
  shows "decode (encode recs) = recs"
proof (cases "recs = []")
  case True
  then show ?thesis by (simp add: decode_def encode_def)
next
  case False
  with assms(1) have "Join recs newline \<noteq> []" by (simp add: Join_eq_Nil)
  with False assms(2) show ?thesis by (simp add: decode_def encode_def Split_Join)
qed

lemma decode_encode_empty_record: "decode (encode [[]]) = []"
  by (simp add: decode_def encode_def)

lemma consistent_corresponds:
  assumes "consistent fs db" and "records db \<noteq> [[]]"
    and "\<forall>r \<in> set (records db). newline \<notin> set r"
  shows "corresponds fs db"
proof -
  from assms(1) obtain f where f: "files fs (filePath db) = Some f" "bytes f = encode (records db)"
    by (auto simp: consistent_iff)
  show ?thesis
  proof (cases "records db = []")
    case True
    with f show ?thesis by (simp add: corresponds_def encode_def Length_def)
  next
    case False
    with assms(2) have ne: "Join (records db) newline \<noteq> []" by (simp add: Join_eq_Nil)
    have "Split (Join (records db) newline) newline = records db"
      using False assms(3) by (rule Split_Join)
    then have "length (records db) = Suc (count_list (Join (records db) newline) newline)"
      using length_Split [of "Join (records db) newline" newline] by simp
    with f ne show ?thesis by (simp add: corresponds_def encode_def Length_def)
  qed
qed

lemma reachable_empty_file:
  "reachable fs db \<Longrightarrow> Length db = 0 \<Longrightarrow> \<exists>f. files fs (filePath db) = Some f \<and> bytes f = []"
  using reachable_consistent [of fs db] by (auto simp: consistent_iff Length_def encode_def)

section \<open>The claims\<close>

text \<open>
  C6. \<open>Record(number)\<close> fails with the empty-store error whenever the store has zero
  records, whatever the number; otherwise it fails with the out-of-bounds error, whose
  message is built from the number, 1 and \<open>Length()\<close>, exactly when the number is below 1
  or above \<open>Length()\<close>; otherwise it returns the text of the number-th record, counting
  from 1. \<open>Update\<close> and \<open>Delete\<close> fail with the same error whenever \<open>Record\<close> fails,
  and leave the store and the file system as they were.
\<close>

theorem Record_error_rule:
  "(Length db = 0 \<longrightarrow> Record db number = Returns ([], Some EmptyStoreError))
   \<and> (Length db \<noteq> 0 \<longrightarrow>
        (Record db number = Returns ([], Some (OutOfBoundsError number 1 (Length db)))
           \<longleftrightarrow> number < 1 \<or> Length db < number))
   \<and> (Length db \<noteq> 0 \<and> 1 \<le> number \<and> number \<le> Length db \<longrightarrow>
        Record db number = Returns (records db ! nat (number - 1), None))
   \<and> Error EmptyStoreError = ''no records in database''
   \<and> Error (OutOfBoundsError number 1 (Length db)) =
        ''record number ('' @ Itoa number @ '') out of bounds ['' @ Itoa 1 @ '', ''
          @ Itoa (Length db) @ '']''
   \<and> (\<forall>s err. Record db number = Returns (s, Some err) \<longrightarrow>
        Update fs db number record = Returns (([], Some err), db, fs)
        \<and> Delete fs db number = Returns (([], Some err), db, fs))"
  by (simp add: Record_eq Update_eq Delete_eq)

theorem Record_error_rule_witness:
  "Length \<lparr>filePath = ''f'', records = []\<rparr> = 0
   \<and> Record \<lparr>filePath = ''f'', records = []\<rparr> 7 = Returns ([], Some EmptyStoreError)
   \<and> Length \<lparr>filePath = ''f'', records = [''ln1'']\<rparr> \<noteq> 0
   \<and> Record \<lparr>filePath = ''f'', records = [''ln1'']\<rparr> 2
       = Returns ([], Some (OutOfBoundsError 2 1 1))
   \<and> Error (OutOfBoundsError 2 1 1) = ''record number (2) out of bounds [1, 1]''
   \<and> Update
        \<lparr>files = [''f'' \<mapsto> \<lparr>bytes = ''ln1'', readable = True, writable = True\<rparr>],
       create_error = Map.empty, wlimit = None, wcalls = 0\<rparr>
        \<lparr>filePath = ''f'', records = [''ln1'']\<rparr> 2 ''new''
       = Returns (([], Some (OutOfBoundsError 2 1 1)), \<lparr>filePath = ''f'', records = [''ln1'']\<rparr>,
           \<lparr>files = [''f'' \<mapsto> \<lparr>bytes = ''ln1'', readable = True, writable = True\<rparr>],
       create_error = Map.empty, wlimit = None, wcalls = 0\<rparr>)
   \<and> Delete
        \<lparr>files = [''f'' \<mapsto> \<lparr>bytes = ''ln1'', readable = True, writable = True\<rparr>],
       create_error = Map.empty, wlimit = None, wcalls = 0\<rparr>
        \<lparr>filePath = ''f'', records = [''ln1'']\<rparr> 2
       = Returns (([], Some (OutOfBoundsError 2 1 1)), \<lparr>filePath = ''f'', records = [''ln1'']\<rparr>,
           \<lparr>files = [''f'' \<mapsto> \<lparr>bytes = ''ln1'', readable = True, writable = True\<rparr>],
       create_error = Map.empty, wlimit = None, wcalls = 0\<rparr>)
   \<and> Record \<lparr>filePath = ''f'', records = [''ln1'', ''ln2'']\<rparr> 2 = Returns (''ln2'', None)"
  using
    Record_error_rule [of "\<lparr>filePath = ''f'', records = []\<rparr>" 7]
    Record_error_rule [of "\<lparr>filePath = ''f'', records = [''ln1'']\<rparr>" 2
      "\<lparr>files = [''f'' \<mapsto> \<lparr>bytes = ''ln1'', readable = True, writable = True\<rparr>],
       create_error = Map.empty, wlimit = None, wcalls = 0\<rparr>" "''new''"]
    Record_error_rule [of "\<lparr>filePath = ''f'', records = [''ln1'', ''ln2'']\<rparr>" 2]
  by (simp add: Length_def Itoa_def digits.simps)

text \<open>
  C7. Decoding zero bytes gives zero records. Decoding any other input splits it at the
  separators and gives one record more than there are separators: joining the records
  gives the input back, no record holds a separator, and a separator at the start, at the
  end or next to another one gives an empty record. \<open>loadFromFile\<close> decodes the bytes of
  the file it could read, so \<open>Open\<close> on a file of zero bytes gives a store of length 0 and
  on any other file a store of length k + 1, k the number of separators.
\<close>

theorem decode_rule:
  "decode [] = []
   \<and> (buf \<noteq> [] \<longrightarrow>
        decode buf = Split buf newline
        \<and> length (decode buf) = count_list buf newline + 1
        \<and> Join (decode buf) newline = buf
        \<and> (\<forall>r \<in> set (decode buf). newline \<notin> set r))
   \<and> decode (newline # b) = [] # Split b newline
   \<and> decode (a @ [newline]) = Split a newline @ [[]]
   \<and> decode (a @ newline # newline # b) = Split a newline @ [] # Split b newline
   \<and> (files fs path = Some f \<and> readable f \<longrightarrow>
        loadFromFile fs path = (decode (bytes f), None)
        \<and> Open fs path = (Some \<lparr>filePath = path, records = decode (bytes f)\<rparr>, None)
        \<and> Length \<lparr>filePath = path, records = decode (bytes f)\<rparr>
            = (if length (bytes f) = 0 then 0 else int (count_list (bytes f) newline) + 1))"
proof -
  have "decode (a @ newline # newline # b) = Split a newline @ [] # Split b newline"
    using Split_append [of a newline "newline # b"] by (simp add: decode_def)
  moreover have "decode (a @ [newline]) = Split a newline @ [[]]"
    using Split_append [of a newline "[]"] by (simp add: decode_def)
  moreover have "files fs path = Some f \<and> readable f
      \<Longrightarrow> loadFromFile fs path = (decode (bytes f), None)"
    by (simp add: loadFromFile_def os_ReadFile_def decode_def)
  ultimately show ?thesis
    by (simp add: Open_eq Length_def)
      (auto simp: decode_def length_Split Join_Split dest: Split_no_sep)
qed

theorem decode_rule_witness:
  "''a'' @ [newline, newline] @ ''b'' @ [newline] \<noteq> []
   \<and> decode (''a'' @ [newline, newline] @ ''b'' @ [newline]) = [''a'', [], ''b'', []]
   \<and> files
        \<lparr>files = [''f'' \<mapsto> \<lparr>bytes = ''ln1'' @ [newline] @ ''ln2'', readable = True, writable = True\<rparr>],
       create_error = Map.empty, wlimit = None, wcalls = 0\<rparr> ''f''
       = Some \<lparr>bytes = ''ln1'' @ [newline] @ ''ln2'', readable = True, writable = True\<rparr>
   \<and> readable \<lparr>bytes = ''ln1'' @ [newline] @ ''ln2'', readable = True, writable = True\<rparr>
   \<and> Open
        \<lparr>files = [''f'' \<mapsto> \<lparr>bytes = ''ln1'' @ [newline] @ ''ln2'', readable = True, writable = True\<rparr>],
       create_error = Map.empty, wlimit = None, wcalls = 0\<rparr> ''f''
       = (Some \<lparr>filePath = ''f'', records = [''ln1'', ''ln2'']\<rparr>, None)
   \<and> Length \<lparr>filePath = ''f'', records = [''ln1'', ''ln2'']\<rparr> = 2"
  using
    decode_rule [of "''a'' @ [newline, newline] @ ''b'' @ [newline]" "[]" "[]"
      "\<lparr>files = [''f'' \<mapsto> \<lparr>bytes = ''ln1'' @ [newline] @ ''ln2'', readable = True, writable = True\<rparr>],
       create_error = Map.empty, wlimit = None, wcalls = 0\<rparr>"
      "''f''" "\<lparr>bytes = ''ln1'' @ [newline] @ ''ln2'', readable = True, writable = True\<rparr>"]
  by (simp add: newline_def decode_def Length_def)

text \<open>
  C10. On a store with zero records \<open>Insert(0, "")\<close> returns success with the store and the
  file system it was given: the files and the count of calls to \<open>os.WriteFile\<close> are the
  same, whether or not the backing file can be written.
\<close>

theorem Insert_empty_on_empty_writes_nothing:
  "Length db = 0 \<Longrightarrow> Insert fs db 0 [] = Returns (None, db, fs)"
  by (simp add: Insert_eq)

theorem Insert_empty_on_empty_writes_nothing_witness:
  "Length \<lparr>filePath = ''f'', records = []\<rparr> = 0
   \<and> \<not> writable (the (files
        \<lparr>files = [''f'' \<mapsto> \<lparr>bytes = [], readable = True, writable = False\<rparr>],
       create_error = Map.empty, wlimit = None, wcalls = 3\<rparr> ''f''))
   \<and> Insert
        \<lparr>files = [''f'' \<mapsto> \<lparr>bytes = [], readable = True, writable = False\<rparr>],
       create_error = Map.empty, wlimit = None, wcalls = 3\<rparr>
        \<lparr>filePath = ''f'', records = []\<rparr> 0 []
       = Returns (None, \<lparr>filePath = ''f'', records = []\<rparr>,
           \<lparr>files = [''f'' \<mapsto> \<lparr>bytes = [], readable = True, writable = False\<rparr>],
       create_error = Map.empty, wlimit = None, wcalls = 3\<rparr>)"
  using Insert_empty_on_empty_writes_nothing
    [of "\<lparr>filePath = ''f'', records = []\<rparr>"
        "\<lparr>files = [''f'' \<mapsto> \<lparr>bytes = [], readable = True, writable = False\<rparr>],
       create_error = Map.empty, wlimit = None, wcalls = 3\<rparr>"]
  by (simp add: Length_def)

text \<open>
  C8. On a store with zero records \<open>Insert(0, "")\<close> succeeds and does nothing: it returns
  the store and the file system it was given, so no record is created and the store still
  has length 0; over a backing file of zero bytes, the backing file still has zero bytes.
\<close>

theorem Insert_empty_on_empty_noop:
  "Length db = 0 \<Longrightarrow>
   Insert fs db 0 [] = Returns (None, db, fs)
   \<and> (\<forall>f. files fs (filePath db) = Some f \<and> length (bytes f) = 0 \<longrightarrow>
        (\<exists>db' fs' f'. Insert fs db 0 [] = Returns (None, db', fs')
           \<and> records db' = [] \<and> Length db' = 0
           \<and> files fs' (filePath db') = Some f' \<and> length (bytes f') = 0))"
  by (simp add: Insert_eq Length_def)

theorem Insert_empty_on_empty_noop_witness:
  "Length \<lparr>filePath = ''f'', records = []\<rparr> = 0
   \<and> files
        \<lparr>files = [''f'' \<mapsto> \<lparr>bytes = [], readable = True, writable = True\<rparr>],
       create_error = Map.empty, wlimit = None, wcalls = 0\<rparr>
        (filePath \<lparr>filePath = ''f'', records = []\<rparr>)
       = Some \<lparr>bytes = [], readable = True, writable = True\<rparr>
   \<and> length (bytes \<lparr>bytes = [], readable = True, writable = True\<rparr>) = 0
   \<and> Insert
        \<lparr>files = [''f'' \<mapsto> \<lparr>bytes = [], readable = True, writable = True\<rparr>],
       create_error = Map.empty, wlimit = None, wcalls = 0\<rparr>
        \<lparr>filePath = ''f'', records = []\<rparr> 0 []
       = Returns (None, \<lparr>filePath = ''f'', records = []\<rparr>,
           \<lparr>files = [''f'' \<mapsto> \<lparr>bytes = [], readable = True, writable = True\<rparr>],
       create_error = Map.empty, wlimit = None, wcalls = 0\<rparr>)
   \<and> (\<exists>db' fs' f'.
        Insert
          \<lparr>files = [''f'' \<mapsto> \<lparr>bytes = [], readable = True, writable = True\<rparr>],
       create_error = Map.empty, wlimit = None, wcalls = 0\<rparr>
          \<lparr>filePath = ''f'', records = []\<rparr> 0 [] = Returns (None, db', fs')
        \<and> records db' = [] \<and> Length db' = 0
        \<and> files fs' (filePath db') = Some f' \<and> length (bytes f') = 0)"
proof -
  let ?fs = "\<lparr>files = [''f'' \<mapsto> \<lparr>bytes = [], readable = True, writable = True\<rparr>],
       create_error = Map.empty, wlimit = None, wcalls = 0\<rparr>"
  let ?db = "\<lparr>filePath = ''f'', records = []\<rparr>"
  have l: "Length ?db = 0" by (simp add: Length_def)
  have f: "files ?fs (filePath ?db) = Some \<lparr>bytes = [], readable = True, writable = True\<rparr>
      \<and> length (bytes \<lparr>bytes = [], readable = True, writable = True\<rparr>) = 0"
    by simp
  from Insert_empty_on_empty_noop [OF l, of ?fs] f l show ?thesis by blast
qed

text \<open>
  C3, as the code has it. Whenever \<open>Insert\<close>, \<open>Update\<close> or \<open>Delete\<close> returns an error,
  the store is the one before the call and every file other than the backing file is as
  before. When the write fails because the backing file cannot be opened for writing,
  the call reports the persistence error and the files are as before too. When the write
  fails after the file was opened, because there is room for \<open>n\<close> bytes only, the call
  reports the persistence error and the backing file is left with the first \<open>n\<close> bytes of
  the new content.
\<close>

theorem failed_write_keeps_store:
  "(\<forall>err db' fs'. Insert fs db number record = Returns (Some err, db', fs') \<longrightarrow>
      db' = db \<and> (\<forall>p. p \<noteq> filePath db \<longrightarrow> files fs' p = files fs p))
   \<and> (\<forall>s err db' fs'. Update fs db number record = Returns ((s, Some err), db', fs') \<longrightarrow>
      db' = db \<and> (\<forall>p. p \<noteq> filePath db \<longrightarrow> files fs' p = files fs p))
   \<and> (\<forall>s err db' fs'. Delete fs db number = Returns ((s, Some err), db', fs') \<longrightarrow>
      db' = db \<and> (\<forall>p. p \<noteq> filePath db \<longrightarrow> files fs' p = files fs p))
   \<and> (files fs (filePath db) = Some f \<and> \<not> writable f \<longrightarrow>
        (0 \<le> number \<and> number \<le> Length db \<and> \<not> (Length db = 0 \<and> record = []) \<longrightarrow>
           Insert fs db number record =
             Returns (Some (PersistError (filePath db) (PathError ''open'' (filePath db) EACCES)),
               db, fs\<lparr>wcalls := Suc (wcalls fs)\<rparr>))
        \<and> (1 \<le> number \<and> number \<le> Length db \<longrightarrow>
           Update fs db number record =
             Returns (([], Some (PersistError (filePath db)
               (PathError ''open'' (filePath db) EACCES))), db, fs\<lparr>wcalls := Suc (wcalls fs)\<rparr>)
           \<and> Delete fs db number =
             Returns (([], Some (PersistError (filePath db)
               (PathError ''open'' (filePath db) EACCES))), db, fs\<lparr>wcalls := Suc (wcalls fs)\<rparr>))
        \<and> files (fs\<lparr>wcalls := Suc (wcalls fs)\<rparr>) = files fs)
   \<and> (files fs (filePath db) = Some f \<and> writable f \<and> wlimit fs = Some (n, e) \<longrightarrow>
        (0 \<le> number \<and> number \<le> Length db \<and> \<not> (Length db = 0 \<and> record = [])
           \<and> n < length (encode (inserted (records db) number record)) \<longrightarrow>
           Insert fs db number record =
             Returns (Some (PersistError (filePath db) (PathError ''write'' (filePath db) e)), db,
               fs\<lparr>wcalls := Suc (wcalls fs),
                  files := (files fs)(filePath db \<mapsto>
                    f\<lparr>bytes := take n (encode (inserted (records db) number record))\<rparr>)\<rparr>))
        \<and> (1 \<le> number \<and> number \<le> Length db
           \<and> n < length (encode ((records db)[nat (number - 1) := record])) \<longrightarrow>
           Update fs db number record =
             Returns (([], Some (PersistError (filePath db)
               (PathError ''write'' (filePath db) e))), db,
               fs\<lparr>wcalls := Suc (wcalls fs),
                  files := (files fs)(filePath db \<mapsto>
                    f\<lparr>bytes := take n (encode ((records db)[nat (number - 1) := record]))\<rparr>)\<rparr>))
        \<and> (1 \<le> number \<and> number \<le> Length db
           \<and> n < length (encode (deleted (records db) number)) \<longrightarrow>
           Delete fs db number =
             Returns (([], Some (PersistError (filePath db)
               (PathError ''write'' (filePath db) e))), db,
               fs\<lparr>wcalls := Suc (wcalls fs),
                  files := (files fs)(filePath db \<mapsto>
                    f\<lparr>bytes := take n (encode (deleted (records db) number))\<rparr>)\<rparr>)))"
proof -
  have i: "db' = db \<and> (\<forall>p. p \<noteq> filePath db \<longrightarrow> files fs' p = files fs p)"
    if "Insert fs db number record = Returns (Some err, db', fs')" for err db' fs'
    using Insert_error_cases [OF that] saveToFile_failed(2) [of fs "filePath db" _ err fs']
    by auto
  have u: "db' = db \<and> (\<forall>p. p \<noteq> filePath db \<longrightarrow> files fs' p = files fs p)"
    if "Update fs db number record = Returns ((s, Some err), db', fs')" for s err db' fs'
    using Update_error_cases [OF that] saveToFile_failed(2) [of fs "filePath db" _ err fs']
    by auto
  have d: "db' = db \<and> (\<forall>p. p \<noteq> filePath db \<longrightarrow> files fs' p = files fs p)"
    if "Delete fs db number = Returns ((s, Some err), db', fs')" for s err db' fs'
    using Delete_error_cases [OF that] saveToFile_failed(2) [of fs "filePath db" _ err fs']
    by auto
  have refused: "files fs (filePath db) = Some f \<and> \<not> writable f \<longrightarrow>
        (0 \<le> number \<and> number \<le> Length db \<and> \<not> (Length db = 0 \<and> record = []) \<longrightarrow>
           Insert fs db number record =
             Returns (Some (PersistError (filePath db) (PathError ''open'' (filePath db) EACCES)),
               db, fs\<lparr>wcalls := Suc (wcalls fs)\<rparr>))
        \<and> (1 \<le> number \<and> number \<le> Length db \<longrightarrow>
           Update fs db number record =
             Returns (([], Some (PersistError (filePath db)
               (PathError ''open'' (filePath db) EACCES))), db, fs\<lparr>wcalls := Suc (wcalls fs)\<rparr>)
           \<and> Delete fs db number =
             Returns (([], Some (PersistError (filePath db)
               (PathError ''open'' (filePath db) EACCES))), db, fs\<lparr>wcalls := Suc (wcalls fs)\<rparr>))
        \<and> files (fs\<lparr>wcalls := Suc (wcalls fs)\<rparr>) = files fs"
    using Insert_unwritable [of fs db f number "record"] Update_unwritable [of fs db f number "record"]
      Delete_unwritable [of fs db f number]
    by simp
  have short: "files fs (filePath db) = Some f \<and> writable f \<and> wlimit fs = Some (n, e) \<longrightarrow>
        (0 \<le> number \<and> number \<le> Length db \<and> \<not> (Length db = 0 \<and> record = [])
           \<and> n < length (encode (inserted (records db) number record)) \<longrightarrow>
           Insert fs db number record =
             Returns (Some (PersistError (filePath db) (PathError ''write'' (filePath db) e)), db,
               fs\<lparr>wcalls := Suc (wcalls fs),
                  files := (files fs)(filePath db \<mapsto>
                    f\<lparr>bytes := take n (encode (inserted (records db) number record))\<rparr>)\<rparr>))
        \<and> (1 \<le> number \<and> number \<le> Length db
           \<and> n < length (encode ((records db)[nat (number - 1) := record])) \<longrightarrow>
           Update fs db number record =
             Returns (([], Some (PersistError (filePath db)
               (PathError ''write'' (filePath db) e))), db,
               fs\<lparr>wcalls := Suc (wcalls fs),
                  files := (files fs)(filePath db \<mapsto>
                    f\<lparr>bytes := take n (encode ((records db)[nat (number - 1) := record]))\<rparr>)\<rparr>))
        \<and> (1 \<le> number \<and> number \<le> Length db
           \<and> n < length (encode (deleted (records db) number)) \<longrightarrow>
           Delete fs db number =
             Returns (([], Some (PersistError (filePath db)
               (PathError ''write'' (filePath db) e))), db,
               fs\<lparr>wcalls := Suc (wcalls fs),
                  files := (files fs)(filePath db \<mapsto>
                    f\<lparr>bytes := take n (encode (deleted (records db) number))\<rparr>)\<rparr>))"
    using Insert_short [of fs db f n e number "record"] Update_short [of fs db f n e number "record"]
      Delete_short [of fs db f n e number]
    by blast
  from i u d refused short show ?thesis by blast
qed

theorem failed_write_keeps_store_witness:
  "files
      \<lparr>files = [''f'' \<mapsto> \<lparr>bytes = ''initial'', readable = True, writable = False\<rparr>],
       create_error = Map.empty, wlimit = None, wcalls = 0\<rparr>
      (filePath \<lparr>filePath = ''f'', records = [''initial'']\<rparr>)
     = Some \<lparr>bytes = ''initial'', readable = True, writable = False\<rparr>
   \<and> \<not> writable \<lparr>bytes = ''initial'', readable = True, writable = False\<rparr>
   \<and> Length \<lparr>filePath = ''f'', records = [''initial'']\<rparr> = 1
   \<and> Insert
        \<lparr>files = [''f'' \<mapsto> \<lparr>bytes = ''initial'', readable = True, writable = False\<rparr>],
       create_error = Map.empty, wlimit = None, wcalls = 0\<rparr>
        \<lparr>filePath = ''f'', records = [''initial'']\<rparr> 1 ''new''
       = Returns (Some (PersistError ''f'' (PathError ''open'' ''f'' EACCES)), \<lparr>filePath = ''f'', records = [''initial'']\<rparr>,
           \<lparr>files = [''f'' \<mapsto> \<lparr>bytes = ''initial'', readable = True, writable = False\<rparr>],
       create_error = Map.empty, wlimit = None, wcalls = 1\<rparr>)
   \<and> Update
        \<lparr>files = [''f'' \<mapsto> \<lparr>bytes = ''initial'', readable = True, writable = False\<rparr>],
       create_error = Map.empty, wlimit = None, wcalls = 0\<rparr>
        \<lparr>filePath = ''f'', records = [''initial'']\<rparr> 1 ''new''
       = Returns (([], Some (PersistError ''f'' (PathError ''open'' ''f'' EACCES))),
           \<lparr>filePath = ''f'', records = [''initial'']\<rparr>,
           \<lparr>files = [''f'' \<mapsto> \<lparr>bytes = ''initial'', readable = True, writable = False\<rparr>],
       create_error = Map.empty, wlimit = None, wcalls = 1\<rparr>)
   \<and> Delete
        \<lparr>files = [''f'' \<mapsto> \<lparr>bytes = ''initial'', readable = True, writable = False\<rparr>],
       create_error = Map.empty, wlimit = None, wcalls = 0\<rparr>
        \<lparr>filePath = ''f'', records = [''initial'']\<rparr> 1
       = Returns (([], Some (PersistError ''f'' (PathError ''open'' ''f'' EACCES))),
           \<lparr>filePath = ''f'', records = [''initial'']\<rparr>,
           \<lparr>files = [''f'' \<mapsto> \<lparr>bytes = ''initial'', readable = True, writable = False\<rparr>],
       create_error = Map.empty, wlimit = None, wcalls = 1\<rparr>)
   \<and> wlimit
        \<lparr>files = [''f'' \<mapsto> \<lparr>bytes = ''initial'', readable = True, writable = True\<rparr>],
       create_error = Map.empty, wlimit = Some (3, EFBIG), wcalls = 0\<rparr>
       = Some (3, EFBIG)
   \<and> 3 < length (encode ((records \<lparr>filePath = ''f'', records = [''initial'']\<rparr>)[nat (1 - 1) := ''abcdefgh'']))
   \<and> Update
        \<lparr>files = [''f'' \<mapsto> \<lparr>bytes = ''initial'', readable = True, writable = True\<rparr>],
       create_error = Map.empty, wlimit = Some (3, EFBIG), wcalls = 0\<rparr>
        \<lparr>filePath = ''f'', records = [''initial'']\<rparr> 1 ''abcdefgh''
       = Returns (([], Some (PersistError ''f'' (PathError ''write'' ''f'' EFBIG))),
           \<lparr>filePath = ''f'', records = [''initial'']\<rparr>,
           \<lparr>files = [''f'' \<mapsto> \<lparr>bytes = ''abc'', readable = True, writable = True\<rparr>],
       create_error = Map.empty, wlimit = Some (3, EFBIG), wcalls = 1\<rparr>)"
proof -
  let ?fsu = "\<lparr>files = [''f'' \<mapsto> \<lparr>bytes = ''initial'', readable = True, writable = False\<rparr>],
       create_error = Map.empty, wlimit = None, wcalls = 0\<rparr>"
  let ?fsl = "\<lparr>files = [''f'' \<mapsto> \<lparr>bytes = ''initial'', readable = True, writable = True\<rparr>],
       create_error = Map.empty, wlimit = Some (3, EFBIG), wcalls = 0\<rparr>"
  let ?db = "\<lparr>filePath = ''f'', records = [''initial'']\<rparr>"
  have l: "Length ?db = 1" by (simp add: Length_def)
  have n: "3 < length (encode ((records ?db)[nat (1 - 1) := ''abcdefgh'']))"
    by (simp add: encode_def)
  have a: "Insert ?fsu ?db 1 ''new''
       = Returns (Some (PersistError ''f'' (PathError ''open'' ''f'' EACCES)), ?db,
           ?fsu\<lparr>wcalls := Suc (wcalls ?fsu)\<rparr>)
     \<and> Update ?fsu ?db 1 ''new''
       = Returns (([], Some (PersistError ''f'' (PathError ''open'' ''f'' EACCES))), ?db,
           ?fsu\<lparr>wcalls := Suc (wcalls ?fsu)\<rparr>)
     \<and> Delete ?fsu ?db 1
       = Returns (([], Some (PersistError ''f'' (PathError ''open'' ''f'' EACCES))), ?db,
           ?fsu\<lparr>wcalls := Suc (wcalls ?fsu)\<rparr>)"
    using failed_write_keeps_store [of ?fsu ?db 1 "''new''" "\<lparr>bytes = ''initial'', readable = True, writable = False\<rparr>"] l
    by simp
  have b: "Update ?fsl ?db 1 ''abcdefgh''
       = Returns (([], Some (PersistError ''f'' (PathError ''write'' ''f'' EFBIG))), ?db,
           ?fsl\<lparr>wcalls := Suc (wcalls ?fsl),
             files := (files ?fsl)(''f'' \<mapsto>
               \<lparr>bytes = ''initial'', readable = True, writable = True\<rparr>\<lparr>bytes := take 3 (encode ((records ?db)[nat (1 - 1) := ''abcdefgh'']))\<rparr>)\<rparr>)"
    using failed_write_keeps_store [of ?fsl ?db 1 "''abcdefgh''" "\<lparr>bytes = ''initial'', readable = True, writable = True\<rparr>" 3 EFBIG] l n
    by simp
  from a b l n show ?thesis
    by (simp add: encode_def)
qed

theorem failed_write_keeps_store_counterexample:
  "Update
     \<lparr>files = [''f'' \<mapsto> \<lparr>bytes = ''initial'', readable = True, writable = True\<rparr>],
       create_error = Map.empty, wlimit = Some (3, EFBIG), wcalls = 0\<rparr>
     \<lparr>filePath = ''f'', records = [''initial'']\<rparr> 1 ''abcdefgh''
    = Returns (([], Some (PersistError ''f'' (PathError ''write'' ''f'' EFBIG))),
        \<lparr>filePath = ''f'', records = [''initial'']\<rparr>,
        \<lparr>files = [''f'' \<mapsto> \<lparr>bytes = ''abc'', readable = True, writable = True\<rparr>],
       create_error = Map.empty, wlimit = Some (3, EFBIG), wcalls = 1\<rparr>)
   \<and> map_option bytes (files
         \<lparr>files = [''f'' \<mapsto> \<lparr>bytes = ''abc'', readable = True, writable = True\<rparr>],
       create_error = Map.empty, wlimit = Some (3, EFBIG), wcalls = 1\<rparr> ''f'')
       \<noteq> map_option bytes (files
         \<lparr>files = [''f'' \<mapsto> \<lparr>bytes = ''initial'', readable = True, writable = True\<rparr>],
       create_error = Map.empty, wlimit = Some (3, EFBIG), wcalls = 0\<rparr> ''f'')"
  by (simp add: Update_def Record_def checkEmpty_def checkBounds_def index_def assign_def
      Length_def saveToFile_def os_WriteFile_def write_opened_def)

text \<open>
  C9. For every store, every number, every text, every filter and every file system, each
  operation of the store returns: no index, slice or allocation of the model panics,
  since each is reached only after the emptiness and bounds checks. \<open>Length\<close> is
  never negative, and \<open>All\<close> and \<open>Select\<close> return the records with their numbers.
\<close>

theorem store_never_panics:
  "(\<exists>r. Record db number = Returns r)
   \<and> 0 \<le> Length db
   \<and> (\<exists>rs. All db = Returns rs \<and> int (length rs) = Length db)
   \<and> (\<exists>rs. Select db filter' = Returns rs)
   \<and> (\<exists>r. Insert fs db number record = Returns r)
   \<and> (\<exists>r. Update fs db number record = Returns r)
   \<and> (\<exists>r. Delete fs db number = Returns r)"
proof -
  have "\<exists>r. Record db number = Returns r"
    using Record_eq [of db number] by blast
  moreover have "0 \<le> Length db"
    by (simp add: Length_def)
  moreover have "\<exists>rs. All db = Returns rs \<and> int (length rs) = Length db"
    by (simp add: All_eq Length_def)
  moreover have "\<exists>rs. Select db filter' = Returns rs"
    by (simp add: Select_eq)
  moreover have "\<exists>r. Insert fs db number record = Returns r"
    using Insert_eq [of fs db number "record"] by blast
  moreover have "\<exists>r. Update fs db number record = Returns r"
    using Update_eq [of fs db number "record"] by blast
  moreover have "\<exists>r. Delete fs db number = Returns r"
    using Delete_eq [of fs db number] by blast
  ultimately show ?thesis by blast
qed

theorem store_never_panics_witness:
  "(\<exists>r. Record \<lparr>filePath = ''f'', records = [''ln1'']\<rparr> 5 = Returns r)
   \<and> (\<exists>rs. All \<lparr>filePath = ''f'', records = [''ln1'']\<rparr> = Returns rs
         \<and> int (length rs) = Length \<lparr>filePath = ''f'', records = [''ln1'']\<rparr>)
   \<and> (\<exists>rs. Select \<lparr>filePath = ''f'', records = [''ln1'']\<rparr> (\<lambda>r. Number r = 1) = Returns rs)
   \<and> (\<exists>r. Insert \<lparr>files = Map.empty, create_error = Map.empty, wlimit = None, wcalls = 0\<rparr>
         \<lparr>filePath = ''f'', records = [''ln1'']\<rparr> 5 ''x'' = Returns r)
   \<and> (\<exists>r. Update \<lparr>files = Map.empty, create_error = Map.empty, wlimit = None, wcalls = 0\<rparr>
         \<lparr>filePath = ''f'', records = [''ln1'']\<rparr> 5 ''x'' = Returns r)
   \<and> (\<exists>r. Delete \<lparr>files = Map.empty, create_error = Map.empty, wlimit = None, wcalls = 0\<rparr>
         \<lparr>filePath = ''f'', records = [''ln1'']\<rparr> 5 = Returns r)"
  using store_never_panics
    [of "\<lparr>filePath = ''f'', records = [''ln1'']\<rparr>" 5 "\<lambda>r. Number r = 1"
        "\<lparr>files = Map.empty, create_error = Map.empty, wlimit = None, wcalls = 0\<rparr>" "''x''"]
  by blast


text \<open>
  C4, as the code has it. For every store, every text and every number from 0 to
  \<open>Length()\<close>, unless the store has zero records and the text is empty: after a successful
  \<open>Insert(number, text)\<close>, \<open>Record\<close> at the inserted position (the number itself, or
  \<open>Length() + 1\<close> of the store before the call when the number is 0) returns the inserted
  text. \<open>Insert\<close> does succeed on such an input when the backing file can be written and
  nothing bounds the write.
\<close>

theorem Insert_then_Record:
  "0 \<le> number \<Longrightarrow> number \<le> Length db \<Longrightarrow> \<not> (Length db = 0 \<and> record = []) \<Longrightarrow>
   (\<forall>db' fs'. Insert fs db number record = Returns (None, db', fs') \<longrightarrow>
      Record db' (if number = 0 then Length db + 1 else number) = Returns (record, None))
   \<and> (\<forall>f. files fs (filePath db) = Some f \<and> writable f \<and> wlimit fs = None \<longrightarrow>
        (\<exists>db' fs'. Insert fs db number record = Returns (None, db', fs')))"
proof -
  assume b: "0 \<le> number" "number \<le> Length db" and ne: "\<not> (Length db = 0 \<and> record = [])"
  have "Record db' (if number = 0 then Length db + 1 else number) = Returns (record, None)"
    if "Insert fs db number record = Returns (None, db', fs')" for db' fs'
    using Insert_succeeded(3) [OF that ne] Record_inserted_at [OF b] by simp
  moreover have "\<exists>db' fs'. Insert fs db number record = Returns (None, db', fs')"
    if "files fs (filePath db) = Some f \<and> writable f \<and> wlimit fs = None" for f
    using that Insert_writable [of fs db f number "record"] b ne by blast
  ultimately show ?thesis by blast
qed

theorem Insert_then_Record_witness:
  "(0::int) \<le> 2 \<and> 2 \<le> Length \<lparr>filePath = ''f'', records = [''ln1'', ''ln2'', ''ln3'']\<rparr>
   \<and> Insert
        \<lparr>files = [''f'' \<mapsto> \<lparr>bytes = ''ln1'' @ [newline] @ ''ln2'' @ [newline] @ ''ln3'',
           readable = True, writable = True\<rparr>],
       create_error = Map.empty, wlimit = None, wcalls = 0\<rparr>
        \<lparr>filePath = ''f'', records = [''ln1'', ''ln2'', ''ln3'']\<rparr> 2 ''text''
       = Returns (None, \<lparr>filePath = ''f'', records = [''ln1'', ''text'', ''ln2'', ''ln3'']\<rparr>,
           \<lparr>files = [''f'' \<mapsto> \<lparr>bytes = ''ln1'' @ [newline] @ ''text'' @ [newline] @ ''ln2''
              @ [newline] @ ''ln3'', readable = True, writable = True\<rparr>],
       create_error = Map.empty, wlimit = None, wcalls = 1\<rparr>)
   \<and> Record \<lparr>filePath = ''f'', records = [''ln1'', ''text'', ''ln2'', ''ln3'']\<rparr> 2
       = Returns (''text'', None)"
proof -
  let ?fs = "\<lparr>files = [''f'' \<mapsto> \<lparr>bytes = ''ln1'' @ [newline] @ ''ln2'' @ [newline] @ ''ln3'',
           readable = True, writable = True\<rparr>],
       create_error = Map.empty, wlimit = None, wcalls = 0\<rparr>"
  let ?db = "\<lparr>filePath = ''f'', records = [''ln1'', ''ln2'', ''ln3'']\<rparr>"
  have b: "(0::int) \<le> 2" "2 \<le> Length ?db" "\<not> (Length ?db = 0 \<and> ''text'' = [])"
    by (simp_all add: Length_def)
  have i: "Insert ?fs ?db 2 ''text''
       = Returns (None, \<lparr>filePath = ''f'', records = [''ln1'', ''text'', ''ln2'', ''ln3'']\<rparr>,
           \<lparr>files = [''f'' \<mapsto> \<lparr>bytes = ''ln1'' @ [newline] @ ''text'' @ [newline] @ ''ln2''
              @ [newline] @ ''ln3'', readable = True, writable = True\<rparr>],
       create_error = Map.empty, wlimit = None, wcalls = 1\<rparr>)"
    by (simp add: Insert_def checkBounds_def Length_def make_slice_def slice_def
        saveToFile_def os_WriteFile_def write_opened_def)
  show ?thesis
    using b i Insert_then_Record [OF b, of ?fs] by simp
qed

theorem Insert_then_Record_counterexample:
  "(0::int) \<le> 0 \<and> 0 \<le> Length \<lparr>filePath = ''f'', records = []\<rparr>
   \<and> Insert \<lparr>files = [''f'' \<mapsto> \<lparr>bytes = [], readable = True, writable = True\<rparr>],
       create_error = Map.empty, wlimit = None, wcalls = 0\<rparr>
        \<lparr>filePath = ''f'', records = []\<rparr> 0 []
       = Returns (None, \<lparr>filePath = ''f'', records = []\<rparr>,
           \<lparr>files = [''f'' \<mapsto> \<lparr>bytes = [], readable = True, writable = True\<rparr>],
       create_error = Map.empty, wlimit = None, wcalls = 0\<rparr>)
   \<and> Record \<lparr>filePath = ''f'', records = []\<rparr>
        (Length \<lparr>filePath = ''f'', records = []\<rparr> + 1) = Returns ([], Some EmptyStoreError)
   \<and> Record \<lparr>filePath = ''f'', records = []\<rparr>
        (Length \<lparr>filePath = ''f'', records = []\<rparr> + 1) \<noteq> Returns ([], None)"
  by (simp add: Insert_def checkBounds_def Length_def Record_def checkEmpty_def)

text \<open>
  C5, as the code has it. \<open>Insert(number, text)\<close> fails with the out-of-bounds error
  carrying the number, 0 and \<open>Length()\<close> exactly when the number is below 0 or above
  \<open>Length()\<close>. A successful \<open>Insert(0, text)\<close> appends the text after the last record,
  unless the store has zero records and the text is empty. A successful
  \<open>Insert(number, text)\<close> with the number from 1 to \<open>Length()\<close> makes the text the
  number-th record: the store is one record longer, the records before the number are
  where they were and the records from the number on are one position later. \<open>Insert\<close>
  with a number in bounds succeeds when the backing file can be written and nothing
  bounds the write.
\<close>

theorem Insert_semantics:
  "((\<exists>db' fs'. Insert fs db number record
        = Returns (Some (OutOfBoundsError number 0 (Length db)), db', fs'))
      \<longleftrightarrow> number < 0 \<or> Length db < number)
   \<and> (\<not> (Length db = 0 \<and> record = []) \<longrightarrow>
        (\<forall>db' fs'. Insert fs db 0 record = Returns (None, db', fs') \<longrightarrow>
           records db' = records db @ [record]))
   \<and> (1 \<le> number \<and> number \<le> Length db \<longrightarrow>
        (\<forall>db' fs'. Insert fs db number record = Returns (None, db', fs') \<longrightarrow>
           Length db' = Length db + 1
           \<and> Record db' number = Returns (record, None)
           \<and> (\<forall>k. 1 \<le> k \<and> k < number \<longrightarrow> Record db' k = Record db k)
           \<and> (\<forall>k. number \<le> k \<and> k \<le> Length db \<longrightarrow> Record db' (k + 1) = Record db k)))
   \<and> (\<forall>f. files fs (filePath db) = Some f \<and> writable f \<and> wlimit fs = None
          \<and> 0 \<le> number \<and> number \<le> Length db
        \<longrightarrow> (\<exists>db' fs'. Insert fs db number record = Returns (None, db', fs')))"
proof -
  have oob: "(\<exists>db' fs'. Insert fs db number record
        = Returns (Some (OutOfBoundsError number 0 (Length db)), db', fs'))
      \<longleftrightarrow> number < 0 \<or> Length db < number"
  proof
    assume "\<exists>db' fs'. Insert fs db number record
        = Returns (Some (OutOfBoundsError number 0 (Length db)), db', fs')"
    then obtain db' fs' where i: "Insert fs db number record
        = Returns (Some (OutOfBoundsError number 0 (Length db)), db', fs')" by blast
    show "number < 0 \<or> Length db < number"
    proof (rule ccontr)
      assume "\<not> (number < 0 \<or> Length db < number)"
      then have "0 \<le> number" "number \<le> Length db" by simp_all
      from Insert_in_bounds_error [OF this i] show False by simp
    qed
  next
    assume "number < 0 \<or> Length db < number"
    then show "\<exists>db' fs'. Insert fs db number record
        = Returns (Some (OutOfBoundsError number 0 (Length db)), db', fs')"
      using Insert_out_of_bounds by blast
  qed
  have app: "records db' = records db @ [record]"
    if "\<not> (Length db = 0 \<and> record = [])" "Insert fs db 0 record = Returns (None, db', fs')"
    for db' fs'
    using Insert_succeeded(3) [OF that(2,1)] by (simp add: inserted_def)
  have gen: "Length db' = Length db + 1
           \<and> Record db' number = Returns (record, None)
           \<and> (\<forall>k. 1 \<le> k \<and> k < number \<longrightarrow> Record db' k = Record db k)
           \<and> (\<forall>k. number \<le> k \<and> k \<le> Length db \<longrightarrow> Record db' (k + 1) = Record db k)"
    if b: "1 \<le> number \<and> number \<le> Length db"
      and i: "Insert fs db number record = Returns (None, db', fs')"
    for db' fs'
  proof -
    from b have ne: "\<not> (Length db = 0 \<and> record = [])" and b1: "1 \<le> number" "number \<le> Length db"
      and b0: "0 \<le> number" by simp_all
    have db': "db' = db\<lparr>records := inserted (records db) number record\<rparr>"
      using Insert_succeeded(3) [OF i ne] .
    have "Record db' number = Returns (record, None)"
      using Record_inserted_at [OF b0 b1(2), of "record"] b1 by (simp add: db')
    then show ?thesis
      by (simp add: db' Record_after_Insert [OF b1])
  qed
  have ok: "\<exists>db' fs'. Insert fs db number record = Returns (None, db', fs')"
    if "files fs (filePath db) = Some f \<and> writable f \<and> wlimit fs = None
          \<and> 0 \<le> number \<and> number \<le> Length db" for f
  proof (cases "Length db = 0 \<and> record = []")
    case True
    with that show ?thesis by (simp add: Insert_eq)
  next
    case False
    with that Insert_writable [of fs db f number "record"] show ?thesis by blast
  qed
  from oob app gen ok show ?thesis by blast
qed


theorem Insert_semantics_witness:
  "\<not> (Length \<lparr>filePath = ''f'', records = [''ln1'']\<rparr> = 0 \<and> ''text'' = [])
   \<and> (1::int) \<le> 1 \<and> 1 \<le> Length \<lparr>filePath = ''f'', records = [''ln1'']\<rparr>
   \<and> Insert \<lparr>files = [''f'' \<mapsto> \<lparr>bytes = ''ln1'', readable = True, writable = True\<rparr>],
       create_error = Map.empty, wlimit = None, wcalls = 0\<rparr>
        \<lparr>filePath = ''f'', records = [''ln1'']\<rparr> 2 ''text''
       = Returns (Some (OutOfBoundsError 2 0 1), \<lparr>filePath = ''f'', records = [''ln1'']\<rparr>,
           \<lparr>files = [''f'' \<mapsto> \<lparr>bytes = ''ln1'', readable = True, writable = True\<rparr>],
       create_error = Map.empty, wlimit = None, wcalls = 0\<rparr>)
   \<and> Insert \<lparr>files = [''f'' \<mapsto> \<lparr>bytes = ''ln1'', readable = True, writable = True\<rparr>],
       create_error = Map.empty, wlimit = None, wcalls = 0\<rparr>
        \<lparr>filePath = ''f'', records = [''ln1'']\<rparr> 0 ''text''
       = Returns (None, \<lparr>filePath = ''f'', records = [''ln1'', ''text'']\<rparr>,
           \<lparr>files = [''f'' \<mapsto> \<lparr>bytes = ''ln1'' @ [newline] @ ''text'', readable = True, writable = True\<rparr>],
       create_error = Map.empty, wlimit = None, wcalls = 1\<rparr>)
   \<and> records \<lparr>filePath = ''f'', records = [''ln1'', ''text'']\<rparr>
       = records \<lparr>filePath = ''f'', records = [''ln1'']\<rparr> @ [''text'']
   \<and> Insert \<lparr>files = [''f'' \<mapsto> \<lparr>bytes = ''ln1'', readable = True, writable = True\<rparr>],
       create_error = Map.empty, wlimit = None, wcalls = 0\<rparr>
        \<lparr>filePath = ''f'', records = [''ln1'']\<rparr> 1 ''text''
       = Returns (None, \<lparr>filePath = ''f'', records = [''text'', ''ln1'']\<rparr>,
           \<lparr>files = [''f'' \<mapsto> \<lparr>bytes = ''text'' @ [newline] @ ''ln1'', readable = True, writable = True\<rparr>],
       create_error = Map.empty, wlimit = None, wcalls = 1\<rparr>)
   \<and> Length \<lparr>filePath = ''f'', records = [''text'', ''ln1'']\<rparr>
       = Length \<lparr>filePath = ''f'', records = [''ln1'']\<rparr> + 1
   \<and> Record \<lparr>filePath = ''f'', records = [''text'', ''ln1'']\<rparr> 1 = Returns (''text'', None)
   \<and> Record \<lparr>filePath = ''f'', records = [''text'', ''ln1'']\<rparr> (1 + 1)
       = Record \<lparr>filePath = ''f'', records = [''ln1'']\<rparr> 1"
proof -
  let ?fs = "\<lparr>files = [''f'' \<mapsto> \<lparr>bytes = ''ln1'', readable = True, writable = True\<rparr>],
       create_error = Map.empty, wlimit = None, wcalls = 0\<rparr>"
  let ?db = "\<lparr>filePath = ''f'', records = [''ln1'']\<rparr>"
  have l: "Length ?db = 1" by (simp add: Length_def)
  have i2: "Insert ?fs ?db 2 ''text'' = Returns (Some (OutOfBoundsError 2 0 1), ?db, ?fs)"
    by (simp add: Insert_def checkBounds_def Length_def)
  have i0: "Insert ?fs ?db 0 ''text''
       = Returns (None, \<lparr>filePath = ''f'', records = [''ln1'', ''text'']\<rparr>,
           \<lparr>files = [''f'' \<mapsto> \<lparr>bytes = ''ln1'' @ [newline] @ ''text'', readable = True, writable = True\<rparr>],
       create_error = Map.empty, wlimit = None, wcalls = 1\<rparr>)"
    by (simp add: Insert_def checkBounds_def Length_def saveToFile_def os_WriteFile_def write_opened_def)
  have i1: "Insert ?fs ?db 1 ''text''
       = Returns (None, \<lparr>filePath = ''f'', records = [''text'', ''ln1'']\<rparr>,
           \<lparr>files = [''f'' \<mapsto> \<lparr>bytes = ''text'' @ [newline] @ ''ln1'', readable = True, writable = True\<rparr>],
       create_error = Map.empty, wlimit = None, wcalls = 1\<rparr>)"
    by (simp add: Insert_def checkBounds_def Length_def make_slice_def slice_def
        saveToFile_def os_WriteFile_def write_opened_def)
  have ne: "\<not> (Length ?db = 0 \<and> ''text'' = [])" by simp
  have b: "(1::int) \<le> 1 \<and> 1 \<le> Length ?db" by (simp add: l)
  have a0: "records \<lparr>filePath = ''f'', records = [''ln1'', ''text'']\<rparr>
      = records ?db @ [''text'']"
    using Insert_semantics [of ?fs ?db 0 "''text''"] ne i0 by blast
  have a1: "Length \<lparr>filePath = ''f'', records = [''text'', ''ln1'']\<rparr> = Length ?db + 1
      \<and> Record \<lparr>filePath = ''f'', records = [''text'', ''ln1'']\<rparr> 1 = Returns (''text'', None)
      \<and> Record \<lparr>filePath = ''f'', records = [''text'', ''ln1'']\<rparr> (1 + 1) = Record ?db 1"
    using Insert_semantics [of ?fs ?db 1 "''text''"] b i1 by blast
  from ne b i2 i0 i1 a0 a1 show ?thesis by blast
qed

theorem Insert_semantics_counterexample:
  "Insert \<lparr>files = [''f'' \<mapsto> \<lparr>bytes = [], readable = True, writable = True\<rparr>],
       create_error = Map.empty, wlimit = None, wcalls = 0\<rparr>
        \<lparr>filePath = ''f'', records = []\<rparr> 0 []
       = Returns (None, \<lparr>filePath = ''f'', records = []\<rparr>,
           \<lparr>files = [''f'' \<mapsto> \<lparr>bytes = [], readable = True, writable = True\<rparr>],
       create_error = Map.empty, wlimit = None, wcalls = 0\<rparr>)
   \<and> records \<lparr>filePath = ''f'', records = []\<rparr>
       \<noteq> records \<lparr>filePath = ''f'', records = []\<rparr> @ [[]]"
  by (simp add: Insert_def checkBounds_def Length_def)

text \<open>
  C1, at the input where the code departs from it. The backing file holds \<open>"ln1\n"\<close>,
  two records of which the second is empty. \<open>Open\<close> succeeds and \<open>Delete(1)\<close> succeeds;
  the store is left with the single empty record and the file with zero bytes. That
  sequence encodes to zero bytes, which decode to zero records: the round trip does not
  give the sequence back. The sequence of zero records does round-trip.
\<close>

theorem roundtrip_fails_after_Delete:
  "Open \<lparr>files = [''f'' \<mapsto> \<lparr>bytes = ''ln1'' @ [newline], readable = True, writable = True\<rparr>],
       create_error = Map.empty, wlimit = None, wcalls = 0\<rparr> ''f''
     = (Some \<lparr>filePath = ''f'', records = [''ln1'', []]\<rparr>, None)
   \<and> Delete \<lparr>files = [''f'' \<mapsto> \<lparr>bytes = ''ln1'' @ [newline], readable = True, writable = True\<rparr>],
       create_error = Map.empty, wlimit = None, wcalls = 0\<rparr>
        \<lparr>filePath = ''f'', records = [''ln1'', []]\<rparr> 1
     = Returns ((''ln1'', None), \<lparr>filePath = ''f'', records = [[]]\<rparr>,
         \<lparr>files = [''f'' \<mapsto> \<lparr>bytes = [], readable = True, writable = True\<rparr>],
       create_error = Map.empty, wlimit = None, wcalls = 1\<rparr>)
   \<and> encode (records \<lparr>filePath = ''f'', records = [[]]\<rparr>) = []
   \<and> decode (encode (records \<lparr>filePath = ''f'', records = [[]]\<rparr>)) = []
   \<and> decode (encode (records \<lparr>filePath = ''f'', records = [[]]\<rparr>))
       \<noteq> records \<lparr>filePath = ''f'', records = [[]]\<rparr>
   \<and> decode (encode []) = []"
  by (simp add: Open_def loadFromFile_def os_ReadFile_def newline_def
      Delete_def Record_def checkEmpty_def checkBounds_def index_def Length_def make_slice_def
      saveToFile_def os_WriteFile_def write_opened_def decode_def encode_def)

text \<open>
  C2, at the input where the code departs from it. After \<open>Open\<close> on \<open>"ln1\n"\<close> and
  \<open>Delete(1)\<close>, and likewise after \<open>Open\<close> on \<open>"ln1"\<close> and \<open>Update(1, "")\<close>, the store
  and the file are consistent (the record encodes to the zero bytes of the file), but the
  file has zero bytes while the store has one record.
\<close>

theorem correspondence_fails_after_Delete:
  "Delete \<lparr>files = [''f'' \<mapsto> \<lparr>bytes = ''ln1'' @ [newline], readable = True, writable = True\<rparr>],
       create_error = Map.empty, wlimit = None, wcalls = 0\<rparr>
        (the (fst (Open
          \<lparr>files = [''f'' \<mapsto> \<lparr>bytes = ''ln1'' @ [newline], readable = True, writable = True\<rparr>],
       create_error = Map.empty, wlimit = None, wcalls = 0\<rparr>
          ''f''))) 1
     = Returns ((''ln1'', None), \<lparr>filePath = ''f'', records = [[]]\<rparr>,
         \<lparr>files = [''f'' \<mapsto> \<lparr>bytes = [], readable = True, writable = True\<rparr>],
       create_error = Map.empty, wlimit = None, wcalls = 1\<rparr>)
   \<and> Update \<lparr>files = [''f'' \<mapsto> \<lparr>bytes = ''ln1'', readable = True, writable = True\<rparr>],
       create_error = Map.empty, wlimit = None, wcalls = 0\<rparr>
        (the (fst (Open
          \<lparr>files = [''f'' \<mapsto> \<lparr>bytes = ''ln1'', readable = True, writable = True\<rparr>],
       create_error = Map.empty, wlimit = None, wcalls = 0\<rparr> ''f''))) 1 []
     = Returns ((''ln1'', None), \<lparr>filePath = ''f'', records = [[]]\<rparr>,
         \<lparr>files = [''f'' \<mapsto> \<lparr>bytes = [], readable = True, writable = True\<rparr>],
       create_error = Map.empty, wlimit = None, wcalls = 1\<rparr>)
   \<and> consistent \<lparr>files = [''f'' \<mapsto> \<lparr>bytes = [], readable = True, writable = True\<rparr>],
       create_error = Map.empty, wlimit = None, wcalls = 1\<rparr>
        \<lparr>filePath = ''f'', records = [[]]\<rparr>
   \<and> Length \<lparr>filePath = ''f'', records = [[]]\<rparr> = 1
   \<and> \<not> corresponds \<lparr>files = [''f'' \<mapsto> \<lparr>bytes = [], readable = True, writable = True\<rparr>],
       create_error = Map.empty, wlimit = None, wcalls = 1\<rparr>
        \<lparr>filePath = ''f'', records = [[]]\<rparr>"
  by (simp add: Open_def loadFromFile_def os_ReadFile_def newline_def
      Delete_def Update_def Record_def checkEmpty_def checkBounds_def index_def assign_def
      Length_def make_slice_def saveToFile_def os_WriteFile_def write_opened_def encode_def
      consistent_def corresponds_def)

end
